theory Spec2Isabelle
  imports Complex_Main "HOL-Library.Word"
begin

section \<open>Burn mapping: a shallow embedding of the per-pixel change-detection pipeline\<close>

text \<open>
  The development follows \<^verbatim>\<open>notebooks/handover/burnmappingtoolbox.py\<close> (the per-pixel
  numerical routines) and \<^verbatim>\<open>notebooks/handover/BurnCube.py\<close> (the grid-level drivers).
  Python exceptions are values of the type \<open>error\<close>; a function that can raise returns
  \<open>error + 'a\<close> with \<open>Inl\<close> for the exception.
\<close>

datatype error = ValueError | IndexError | ZeroDivisionError | UnboundLocalError

subsection \<open>NumPy floating-point values\<close>

text \<open>
  A NumPy float is modelled by its IEEE class: a finite value (an exact real: rounding
  and overflow to infinity are not modelled, zero is unsigned, and \<^verbatim>\<open>float32\<close> and
  \<^verbatim>\<open>float64\<close> are not told apart), the two infinities, or NaN. The operations follow
  the IEEE rules for the special values; in particular a comparison with NaN is false
  and a division by zero gives an infinity or NaN, never an exception (the drivers
  silence NumPy's warnings).
\<close>

datatype npfloat = Fin real | PInf | NInf | NaN

fun isnan :: "npfloat \<Rightarrow> bool" where
  "isnan NaN = True"
| "isnan _ = False"

fun isfin :: "npfloat \<Rightarrow> bool" where
  "isfin (Fin _) = True"
| "isfin _ = False"

fun fl_neg :: "npfloat \<Rightarrow> npfloat" where
  "fl_neg (Fin a) = Fin (- a)"
| "fl_neg PInf = NInf"
| "fl_neg NInf = PInf"
| "fl_neg NaN = NaN"

fun fl_add :: "npfloat \<Rightarrow> npfloat \<Rightarrow> npfloat" where
  "fl_add NaN _ = NaN"
| "fl_add _ NaN = NaN"
| "fl_add (Fin a) (Fin b) = Fin (a + b)"
| "fl_add PInf NInf = NaN"
| "fl_add NInf PInf = NaN"
| "fl_add PInf _ = PInf"
| "fl_add _ PInf = PInf"
| "fl_add NInf _ = NInf"
| "fl_add _ NInf = NInf"

definition fl_sub :: "npfloat \<Rightarrow> npfloat \<Rightarrow> npfloat" where
  "fl_sub a b = fl_add a (fl_neg b)"

fun fl_sgn_inf :: "real \<Rightarrow> npfloat" where
  "fl_sgn_inf s = (if s = 0 then NaN else if 0 < s then PInf else NInf)"

fun fl_mul :: "npfloat \<Rightarrow> npfloat \<Rightarrow> npfloat" where
  "fl_mul NaN _ = NaN"
| "fl_mul _ NaN = NaN"
| "fl_mul (Fin a) (Fin b) = Fin (a * b)"
| "fl_mul (Fin a) PInf = fl_sgn_inf a"
| "fl_mul (Fin a) NInf = fl_sgn_inf (- a)"
| "fl_mul PInf (Fin b) = fl_sgn_inf b"
| "fl_mul NInf (Fin b) = fl_sgn_inf (- b)"
| "fl_mul PInf PInf = PInf"
| "fl_mul NInf NInf = PInf"
| "fl_mul PInf NInf = NInf"
| "fl_mul NInf PInf = NInf"

fun fl_div :: "npfloat \<Rightarrow> npfloat \<Rightarrow> npfloat" where
  "fl_div NaN _ = NaN"
| "fl_div _ NaN = NaN"
| "fl_div (Fin a) (Fin b) = (if b = 0 then fl_sgn_inf a else Fin (a / b))"
| "fl_div (Fin a) _ = Fin 0"
| "fl_div PInf (Fin b) = (if 0 \<le> b then PInf else NInf)"
| "fl_div NInf (Fin b) = (if 0 \<le> b then NInf else PInf)"
| "fl_div _ _ = NaN"

fun fl_sqrt :: "npfloat \<Rightarrow> npfloat" where
  "fl_sqrt (Fin a) = (if a < 0 then NaN else Fin (sqrt a))"
| "fl_sqrt PInf = PInf"
| "fl_sqrt _ = NaN"

fun fl_less :: "npfloat \<Rightarrow> npfloat \<Rightarrow> bool" where
  "fl_less NaN _ = False"
| "fl_less _ NaN = False"
| "fl_less (Fin a) (Fin b) = (a < b)"
| "fl_less _ NInf = False"
| "fl_less PInf _ = False"
| "fl_less _ _ = True"

definition fl_gt :: "npfloat \<Rightarrow> npfloat \<Rightarrow> bool" where
  "fl_gt a b = fl_less b a"

text \<open>\<^verbatim>\<open>x**2\<close> and \<^verbatim>\<open>np.sum\<close> (the sum of no value is \<open>0.0\<close>).\<close>

definition fl_sq :: "npfloat \<Rightarrow> npfloat" where
  "fl_sq a = fl_mul a a"

definition fl_sum :: "npfloat list \<Rightarrow> npfloat" where
  "fl_sum xs = foldr fl_add xs (Fin 0)"

subsection \<open>The parallel drivers' chunking\<close>

text \<open>
  Python's \<^verbatim>\<open>range(start, stop, step)\<close> on integers: a zero step raises
  \<^verbatim>\<open>ValueError\<close>, a positive step counts up while below \<open>stop\<close>, a negative step
  counts down while above it.
\<close>

function range_up :: "int \<Rightarrow> int \<Rightarrow> int \<Rightarrow> int list" where
  "range_up i stop step =
     (if 0 < step \<and> i < stop then i # range_up (i + step) stop step else [])"
  by pat_completeness auto
termination
  by (relation "measure (\<lambda>(i, stop, step). nat (stop - i))") auto

function range_down :: "int \<Rightarrow> int \<Rightarrow> int \<Rightarrow> int list" where
  "range_down i stop step =
     (if step < 0 \<and> stop < i then i # range_down (i + step) stop step else [])"
  by pat_completeness auto
termination
  by (relation "measure (\<lambda>(i, stop, step). nat (i - stop))") auto

declare range_up.simps [simp del] range_down.simps [simp del]

definition py_range :: "int \<Rightarrow> int \<Rightarrow> int \<Rightarrow> error + int list" where
  "py_range start stop step =
     (if step = 0 then Inl ValueError
      else if 0 < step then Inr (range_up start stop step)
      else Inr (range_down start stop step))"

text \<open>
  \<^verbatim>\<open>hdgeomedian\<close>, \<^verbatim>\<open>distances\<close> and \<^verbatim>\<open>severitymapping\<close> all split the flattened
  pixel indices the same way:
  \<^verbatim>\<open>chunk = n // n_procs\<close>,
  \<^verbatim>\<open>[(i, min(n, i + chunk), ...) for i in range(0, n, chunk)]\<close>.
  \<open>n\<close> is a product of lengths; \<open>n_procs\<close> is the caller's integer. Python's \<^verbatim>\<open>//\<close>
  rounds towards minus infinity, as \<open>div\<close> does, and raises on a zero divisor.
\<close>

definition chunks :: "int \<Rightarrow> int \<Rightarrow> error + (int \<times> int) list" where
  "chunks n n_procs =
     (if n_procs = 0 then Inl ZeroDivisionError
      else
        let chunk = n div n_procs in
        case py_range 0 n chunk of
          Inl e \<Rightarrow> Inl e
        | Inr starts \<Rightarrow> Inr (map (\<lambda>i. (i, min n (i + chunk))) starts))"

text \<open>
  A worker runs \<^verbatim>\<open>for i in range(params[0], params[1])\<close>; the indices all workers
  visit, in the order of the chunk list.
\<close>

definition visited :: "(int \<times> int) list \<Rightarrow> int list" where
  "visited cs = concat (map (\<lambda>(a, b). range_up a b 1) cs)"

subsection \<open>NBR distance and change direction\<close>

text \<open>
  \<^verbatim>\<open>nbr_eucdistance(ref, obs)\<close>: \<open>NBRdist\<close> starts as NaN and \<open>Sign\<close> as zeros; only
  the time steps whose observation is not NaN are written:
  \<^verbatim>\<open>EucDist = obs[index] - ref\<close>, \<^verbatim>\<open>NBRdist[index] = sqrt(EucDist**2)\<close>,
  \<^verbatim>\<open>Sign[index[EucDist < 0]] = 1\<close>. \<open>Sign\<close> holds the values \<open>0.0\<close> and \<open>1.0\<close>
  only and is written here as integers.
\<close>

definition nbr_eucdistance :: "npfloat \<Rightarrow> npfloat list \<Rightarrow> npfloat list \<times> int list" where
  "nbr_eucdistance ref obs =
     (map (\<lambda>x. if isnan x then NaN else fl_sqrt (fl_sq (fl_sub x ref))) obs,
      map (\<lambda>x. if \<not> isnan x \<and> fl_less (fl_sub x ref) (Fin 0) then 1 else 0) obs)"

subsection \<open>Severity, start date and duration of one pixel\<close>

text \<open>
  NumPy's indexing of an array by an array of indices, \<^verbatim>\<open>a[ind]\<close>: an index beyond the
  end raises \<^verbatim>\<open>IndexError\<close>. The indices come from \<^verbatim>\<open>np.where\<close> and are never
  negative.
\<close>

definition take_ind :: "'a list \<Rightarrow> nat list \<Rightarrow> error + 'a list" where
  "take_ind a ind =
     (if list_all (\<lambda>i. i < length a) ind then Inr (map (\<lambda>i. a ! i) ind) else Inl IndexError)"

text \<open>
  The start date \<^verbatim>\<open>severity\<close> returns is either the Python integer \<open>0\<close> it was
  initialised with, or an element of \<open>Time\<close>. Timestamps are \<^verbatim>\<open>datetime64[ns]\<close>
  values: integers counting nanoseconds since the epoch.
\<close>

datatype startdate = Zero | Timestamp int

text \<open>
  \<^verbatim>\<open>(t1 - t0)/np.timedelta64(1, 's')/(60*60*24)\<close>: the days between two timestamps.
\<close>

definition days_between :: "int \<Rightarrow> int \<Rightarrow> real" where
  "days_between t0 t1 = real_of_int (t1 - t0) / 10 ^ 9 / (60 * 60 * 24)"

text \<open>\<^verbatim>\<open>notnanind = np.where(~np.isnan(CDist))[0]\<close>\<close>

definition notnanind :: "npfloat list \<Rightarrow> nat list" where
  "notnanind CDist = filter (\<lambda>i. \<not> isnan (CDist ! i)) [0..<length CDist]"

text \<open>
  The three outlier rules, at position \<open>j\<close> of the sequence of valid observations.
  Method 1: \<^verbatim>\<open>cosdist>CDistoutlier\<close>; Method 2: \<^verbatim>\<open>(cosdist>CDistoutlier) & (NBR[notnanind]<0)\<close>;
  Method 3: \<^verbatim>\<open>(cosdist>CDistoutlier) & (NBRDist[notnanind]>NBRoutlier) & (Sign[notnanind]==1)\<close>.
\<close>

definition outlier1 :: "npfloat list \<Rightarrow> npfloat \<Rightarrow> nat \<Rightarrow> bool" where
  "outlier1 cosdist CDistoutlier j = fl_gt (cosdist ! j) CDistoutlier"

definition outlier2 :: "npfloat list \<Rightarrow> npfloat \<Rightarrow> npfloat list \<Rightarrow> nat \<Rightarrow> bool" where
  "outlier2 cosdist CDistoutlier nbr j =
     (fl_gt (cosdist ! j) CDistoutlier \<and> fl_less (nbr ! j) (Fin 0))"

definition outlier3 ::
  "npfloat list \<Rightarrow> npfloat \<Rightarrow> npfloat list \<Rightarrow> npfloat \<Rightarrow> int list \<Rightarrow> nat \<Rightarrow> bool" where
  "outlier3 cosdist CDistoutlier nbrdist NBRoutlier sign j =
     (fl_gt (cosdist ! j) CDistoutlier \<and> fl_gt (nbrdist ! j) NBRoutlier \<and> sign ! j = 1)"

text \<open>
  The three \<^verbatim>\<open>if Method==...\<close> statements. \<open>None\<close> is the state in which no branch
  has bound \<open>outlierind\<close>.
\<close>

definition outlier_indices ::
  "int \<Rightarrow> npfloat list \<Rightarrow> nat list \<Rightarrow> npfloat \<Rightarrow> npfloat list \<Rightarrow> npfloat list
     \<Rightarrow> npfloat \<Rightarrow> int list \<Rightarrow> error + nat list option" where
  "outlier_indices Method cosdist nn CDistoutlier NBR NBRDist NBRoutlier Sign =
     (let pos = [0..<length cosdist] in
      case (if Method = 1 then Inr (Some (filter (outlier1 cosdist CDistoutlier) pos))
            else Inr None) of
        Inl e \<Rightarrow> Inl e
      | Inr o1 \<Rightarrow>
     (case (if Method = 2 then
              (case take_ind NBR nn of
                 Inl e \<Rightarrow> Inl e
               | Inr nbr \<Rightarrow> Inr (Some (filter (outlier2 cosdist CDistoutlier nbr) pos)))
            else Inr o1) of
        Inl e \<Rightarrow> Inl e
      | Inr o2 \<Rightarrow>
        (if Method = 3 then
           (case take_ind NBRDist nn of
              Inl e \<Rightarrow> Inl e
            | Inr nbrdist \<Rightarrow>
               (case take_ind Sign nn of
                  Inl e \<Rightarrow> Inl e
                | Inr sign \<Rightarrow>
                    Inr (Some (filter (outlier3 cosdist CDistoutlier nbrdist NBRoutlier sign) pos))))
         else Inr o2)))"

text \<open>
  One pass of \<^verbatim>\<open>for ii in range(0, Nout)\<close>. The state is
  \<open>(AreaAboveD0, duration, tt)\<close>. The test \<^verbatim>\<open>len(u) > 0\<close> asks whether the timestamp
  of the next valid observation is among the outliers' timestamps.
\<close>

definition severity_step ::
  "npfloat list \<Rightarrow> int list \<Rightarrow> nat list \<Rightarrow> npfloat
     \<Rightarrow> npfloat \<times> real \<times> nat list \<Rightarrow> nat \<Rightarrow> npfloat \<times> real \<times> nat list" where
  "severity_step cosdist time outlierind CDistoutlier st ii =
     (case st of (AreaAboveD0, duration, tt) \<Rightarrow>
        let k = outlierind ! ii; outlierdates = map (\<lambda>i. time ! i) outlierind in
        if k + 1 < length time \<and> time ! (k + 1) \<in> set outlierdates then
          let t1_t0 = days_between (time ! k) (time ! (k + 1));
              y1_y0 = fl_sub (fl_add (cosdist ! (k + 1)) (cosdist ! k))
                             (fl_mul (Fin 2) CDistoutlier)
          in (fl_add AreaAboveD0 (fl_mul (fl_mul (Fin 0.5) y1_y0) (Fin t1_t0)),
              duration + t1_t0, tt @ [ii])
        else st)"

text \<open>
  \<^verbatim>\<open>severity(CDist, CDistoutlier, Time, NBR, NBRDist, NBRoutlier, Sign, Method=3)\<close>,
  returning \<open>(sevindex, startdate, duration)\<close>. \<open>Method\<close> is \<open>None\<close> when the caller
  leaves it out.
\<close>

definition severity ::
  "npfloat list \<Rightarrow> npfloat \<Rightarrow> int list \<Rightarrow> npfloat list \<Rightarrow> npfloat list \<Rightarrow> npfloat
     \<Rightarrow> int list \<Rightarrow> int option \<Rightarrow> error + (npfloat \<times> startdate \<times> real)" where
  "severity CDist CDistoutlier Time NBR NBRDist NBRoutlier Sign Method_arg =
     (let Method = (case Method_arg of None \<Rightarrow> 3 | Some m \<Rightarrow> m);
          nn = notnanind CDist;
          cosdist = map (\<lambda>i. CDist ! i) nn
      in
      case outlier_indices Method cosdist nn CDistoutlier NBR NBRDist NBRoutlier Sign of
        Inl e \<Rightarrow> Inl e
      | Inr bound \<Rightarrow>
     (case take_ind Time nn of
        Inl e \<Rightarrow> Inl e
      | Inr time \<Rightarrow>
     (case bound of
        None \<Rightarrow> Inl UnboundLocalError
      | Some outlierind \<Rightarrow>
          let Nout = length outlierind in
          if 2 \<le> Nout then
            (case foldl (severity_step cosdist time outlierind CDistoutlier)
                        (Fin 0, 0, []) [0..<Nout] of
               (AreaAboveD0, duration, tt) \<Rightarrow>
                 (case tt of
                    [] \<Rightarrow> Inr (Fin 0, Zero, duration)
                  | t # _ \<Rightarrow> Inr (AreaAboveD0, Timestamp (time ! (outlierind ! t)), duration)))
          else Inr (Fin 0, Zero, 0))))"

subsection \<open>The grids of \<^verbatim>\<open>BurnCube\<close>\<close>

text \<open>
  The datasets \<^verbatim>\<open>self.dists\<close>, \<^verbatim>\<open>self.outlrs\<close> and the result of
  \<^verbatim>\<open>severitymapping\<close>. A \<open>(y, x)\<close> grid is the list of its pixels in the row-major
  order of \<^verbatim>\<open>reshape\<close>; a \<open>(time, y, x)\<close> array is a list of grids. \<open>ChangeDir\<close>
  holds the integers of the \<^verbatim>\<open>int16\<close> buffer it is copied from. A start date of
  the severity result is a \<^verbatim>\<open>float64\<close> that \<^verbatim>\<open>region_growing\<close> reads back as a
  timestamp: NaN (\<open>None\<close>) or the timestamp it holds.
\<close>

record dists =
  dists_time :: "int list"
  dists_y :: "real list"
  dists_x :: "real list"
  dists_cosdist :: "npfloat list list"
  dists_NBRDist :: "npfloat list list"
  dists_ChangeDir :: "int list list"
  dists_NBR :: "npfloat list list"

record outlrs =
  outlrs_CDistoutlier :: "npfloat list"
  outlrs_NBRoutlier :: "npfloat list"

record severity_out =
  StartDate :: "int option list"
  Severe :: "int list"

subsection \<open>\<^verbatim>\<open>severitymapping\<close>: the choice of the pixels to score\<close>

text \<open>
  \<^verbatim>\<open>cosdist.where(cond).sum(axis=0)\<close> at pixel \<open>p\<close>: xarray replaces the values where
  the condition fails by NaN and its sum skips NaN.
\<close>

definition where_sum :: "npfloat list list \<Rightarrow> (nat \<Rightarrow> nat \<Rightarrow> bool) \<Rightarrow> nat \<Rightarrow> npfloat" where
  "where_sum a cond p =
     fl_sum (filter (\<lambda>v. \<not> isnan v)
       (map (\<lambda>t. if cond t p then a ! t ! p else NaN) [0..<length a]))"

text \<open>
  \<^verbatim>\<open>def severitymapping(self, period, n_procs=4, method='NBR', growing=True)\<close>, up to
  \<^verbatim>\<open>outlierind\<close>: the flattened indices of the pixels handed to the workers. \<open>None\<close>
  is a call that leaves \<open>method\<close> out.
\<close>

definition severitymapping_outlierind ::
  "string option \<Rightarrow> dists \<Rightarrow> outlrs \<Rightarrow> error + nat list" where
  "severitymapping_outlierind method_arg d out =
     (let method = (case method_arg of None \<Rightarrow> ''NBR'' | Some m \<Rightarrow> m);
          n = length (dists_x d) * length (dists_y d) in
      if method = ''NBR'' then
        Inr (filter (\<lambda>p. fl_gt
               (where_sum (dists_cosdist d)
                  (\<lambda>t p. fl_gt (dists_cosdist d ! t ! p) (outlrs_CDistoutlier out ! p)
                         \<and> fl_less (dists_NBR d ! t ! p) (Fin 0)) p)
               (Fin 0)) [0..<n])
      else if method = ''NBRdist'' then
        Inr (filter (\<lambda>p. fl_gt
               (where_sum (dists_cosdist d)
                  (\<lambda>t p. fl_gt (dists_cosdist d ! t ! p) (outlrs_CDistoutlier out ! p)
                         \<and> fl_gt (dists_NBRDist d ! t ! p) (outlrs_NBRoutlier out ! p)
                         \<and> dists_ChangeDir d ! t ! p = 1) p)
               (Fin 0)) [0..<n])
      else Inl ValueError)"

subsection \<open>\<^verbatim>\<open>severitymapping\<close>: the start-date grid\<close>

text \<open>
  \<^verbatim>\<open>a[ind] = vals\<close> for index and value arrays of one length (later writes win), and
  \<^verbatim>\<open>a[a==0] = np.nan\<close>.
\<close>

definition scatter :: "'a list \<Rightarrow> nat list \<Rightarrow> 'a list \<Rightarrow> 'a list" where
  "scatter a ind vals = foldl (\<lambda>acc (i, v). acc[i := v]) a (zip ind vals)"

definition zero_to_nan :: "npfloat list \<Rightarrow> npfloat list" where
  "zero_to_nan a = map (\<lambda>v. if v = Fin 0 then NaN else v) a"

text \<open>The number a worker stores in the \<^verbatim>\<open>float64\<close> buffer \<open>dates\<close> for a start date.\<close>

fun startdate_float :: "startdate \<Rightarrow> npfloat" where
  "startdate_float Zero = Fin 0"
| "startdate_float (Timestamp t) = Fin (real_of_int t)"

text \<open>
  \<^verbatim>\<open>startdate = np.zeros(n)\<close>, \<^verbatim>\<open>startdate[outlierind] = dates\<close>,
  \<^verbatim>\<open>startdate[startdate==0] = np.nan\<close>.
\<close>

definition severitymapping_startdate :: "nat \<Rightarrow> nat list \<Rightarrow> npfloat list \<Rightarrow> npfloat list" where
  "severitymapping_startdate n outlierind dates =
     zero_to_nan (scatter (replicate n (Fin 0)) outlierind dates)"

subsection \<open>The geometric median of one pixel\<close>

text \<open>
  \<^verbatim>\<open>np.nanmean\<close> of one band: the mean of the values that are not NaN, and
  \<open>0/0 = NaN\<close> when there is none.
\<close>

definition nanmean :: "npfloat list \<Rightarrow> npfloat" where
  "nanmean row =
     (let vs = filter (\<lambda>v. \<not> isnan v) row in fl_div (fl_sum vs) (Fin (real (length vs))))"

text \<open>
  \<open>X\<close> is a \<open>p \<times> N\<close> matrix: a list of \<open>p\<close> bands, each a list over the \<open>N\<close> dates.
  One pass of the loop computes, for the current estimate \<open>y0\<close>,
  \<^verbatim>\<open>EucNorm = np.sqrt(np.sum(EucDist**2, axis=0))\<close> with
  \<^verbatim>\<open>EucDist = np.transpose(np.transpose(X) - y0)\<close>, the dates \<open>NotNaN\<close> whose norm
  is not NaN, and
  \<^verbatim>\<open>y1 = np.sum(X[:,NotNaN]/EucNorm[NotNaN], axis=1)/(np.sum(1/EucNorm[NotNaN]))\<close>.
\<close>

definition EucNorm :: "npfloat list list \<Rightarrow> npfloat list \<Rightarrow> nat \<Rightarrow> npfloat" where
  "EucNorm X y0 t =
     fl_sqrt (fl_sum (map (\<lambda>b. fl_sq (fl_sub (X ! b ! t) (y0 ! b))) [0..<length X]))"

definition NotNaN :: "npfloat list list \<Rightarrow> npfloat list \<Rightarrow> nat list" where
  "NotNaN X y0 = filter (\<lambda>t. \<not> isnan (EucNorm X y0 t)) [0..<length (X ! 0)]"

definition gm_y1 :: "npfloat list list \<Rightarrow> npfloat list \<Rightarrow> npfloat list" where
  "gm_y1 X y0 =
     map (\<lambda>b. fl_div
            (fl_sum (map (\<lambda>t. fl_div (X ! b ! t) (EucNorm X y0 t)) (NotNaN X y0)))
            (fl_sum (map (\<lambda>t. fl_div (Fin 1) (EucNorm X y0 t)) (NotNaN X y0))))
         [0..<length X]"

text \<open>
  The \<^verbatim>\<open>while\<close> loop. Its state is \<open>(y0, eps, l)\<close>; \<open>eps\<close> is the scalar \<open>10**2\<close>
  or \<open>0\<close> (a list of one value here) or the vector \<open>y1 - y0\<close>, and
  \<^verbatim>\<open>np.sqrt(np.sum(eps**2))\<close> reads all three. A pass that finds a NaN in \<open>y1\<close> sets
  \<open>eps = 0\<close> and leaves \<open>y0\<close> and \<open>l\<close> as they are. Not returning is the value \<open>None\<close>.
\<close>

partial_function (option) gm_loop ::
  "npfloat list list \<Rightarrow> real \<Rightarrow> int \<Rightarrow> npfloat list \<Rightarrow> npfloat list \<Rightarrow> int
     \<Rightarrow> npfloat list option" where
  "gm_loop X tol MaxInter y0 eps l =
     (if fl_gt (fl_sqrt (fl_sum (map fl_sq eps))) (Fin tol) \<and> l < MaxInter then
        (if list_ex isnan (gm_y1 X y0) then gm_loop X tol MaxInter y0 [Fin 0] l
         else gm_loop X tol MaxInter (gm_y1 X y0) (map2 fl_sub (gm_y1 X y0) y0) (l + 1))
      else Some y0)"

text \<open>
  \<^verbatim>\<open>geometric_median(X, tol, MaxInter)\<close>. \<^verbatim>\<open>len(X[0])\<close> raises on a matrix without
  bands.
\<close>

definition geometric_median ::
  "npfloat list list \<Rightarrow> real \<Rightarrow> int \<Rightarrow> (error + npfloat list) option" where
  "geometric_median X tol MaxInter =
     (if X = [] then Some (Inl IndexError)
      else
        let y0 = map nanmean X in
        if list_ex isnan y0 then Some (Inr y0)
        else map_option Inr (gm_loop X tol MaxInter y0 [Fin (10\<^sup>2)] 0))"

subsection \<open>The workers of \<^verbatim>\<open>hdgeomedian\<close> and \<^verbatim>\<open>distances\<close>\<close>

text \<open>
  The input cube of the workers is an \<^verbatim>\<open>int16\<close> buffer of shape
  \<open>(band, time, pixel)\<close>. \<^verbatim>\<open>ind = np.where(X[1, :, i] > 0)[0]\<close> are the time steps of
  pixel \<open>i\<close> the workers use.
\<close>

type_synonym int16 = "16 word"

definition of_int16 :: "int16 \<Rightarrow> npfloat" where
  "of_int16 w = Fin (real_of_int (sint w))"

definition valid_ind :: "int16 list list list \<Rightarrow> nat \<Rightarrow> nat list" where
  "valid_ind X i = filter (\<lambda>t. 0 < sint (X ! 1 ! t ! i)) [0..<length (X ! 1)]"

text \<open>\<^verbatim>\<open>X[:, ind, i]\<close>, converted to floating point by the arithmetic that reads it.\<close>

definition pixel_obs :: "int16 list list list \<Rightarrow> nat list \<Rightarrow> nat \<Rightarrow> npfloat list list" where
  "pixel_obs X ind i = map (\<lambda>band. map (\<lambda>t. of_int16 (band ! t ! i)) ind) X"

text \<open>
  \<^verbatim>\<open>dist_geomedian\<close> for pixel \<open>i\<close>: the column \<^verbatim>\<open>gmed[:, i]\<close> after the worker has
  run. \<^verbatim>\<open>hdgeomedian\<close> fills \<open>gmed\<close> with NaN before it starts the workers, and the
  worker writes the column only when \<open>ind\<close> is not empty. \<^verbatim>\<open>X[1, :, i]\<close> raises on a
  cube with fewer than two bands.
\<close>

definition dist_geomedian_pixel ::
  "int16 list list list \<Rightarrow> real \<Rightarrow> int \<Rightarrow> nat \<Rightarrow> (error + npfloat list) option" where
  "dist_geomedian_pixel X epsilon max_iter i =
     (if length X < 2 then Some (Inl IndexError)
      else
        let ind = valid_ind X i in
        if 0 < length ind then geometric_median (pixel_obs X ind i) epsilon max_iter
        else Some (Inr (replicate (length X) NaN)))"

text \<open>
  \<^verbatim>\<open>dist_distance\<close> for pixel \<open>i\<close>: the columns \<^verbatim>\<open>cos_dist[:, i]\<close>,
  \<^verbatim>\<open>nbr_dist[:, i]\<close> and \<^verbatim>\<open>direction[:, i]\<close> after the worker has run.
  \<^verbatim>\<open>distances\<close> fills the first two with NaN and the third with \<open>0\<close>. \<open>gmed\<close> is the
  pixel's column of the geometric median. \<open>cos_distance\<close> is imported from the module
  \<^verbatim>\<open>stats\<close> and is a parameter here. \<^verbatim>\<open>a[ind, i] = v\<close> needs as many values as
  indices, or one value.
\<close>

definition assign :: "'a list \<Rightarrow> nat list \<Rightarrow> 'a list \<Rightarrow> error + 'a list" where
  "assign a ind v =
     (if length v = length ind then Inr (scatter a ind v)
      else if length v = 1 then Inr (scatter a ind (replicate (length ind) (v ! 0)))
      else Inl ValueError)"

definition dist_distance_pixel ::
  "(npfloat list \<Rightarrow> int16 list list \<Rightarrow> error + npfloat list) \<Rightarrow> int16 list list list
     \<Rightarrow> npfloat list \<Rightarrow> nat \<Rightarrow> error + (npfloat list \<times> npfloat list \<times> int list)" where
  "dist_distance_pixel cos_distance X gmed i =
     (if length X < 2 then Inl IndexError
      else
        let T = length (X ! 1);
            ind = valid_ind X i
        in
        if 0 < length ind then
          (case cos_distance gmed (map (\<lambda>band. map (\<lambda>t. band ! t ! i) ind) X) of
             Inl e \<Rightarrow> Inl e
           | Inr cd \<Rightarrow>
          (case assign (replicate T NaN) ind cd of
             Inl e \<Rightarrow> Inl e
           | Inr cos_dist \<Rightarrow>
             if length gmed < 6 \<or> length X < 6 then Inl IndexError
             else
               let nbrmed = fl_div (fl_sub (gmed ! 3) (gmed ! 5)) (fl_add (gmed ! 3) (gmed ! 5));
                   nbr = map (\<lambda>t. fl_div (of_int16 (X ! 3 ! t ! i - X ! 5 ! t ! i))
                                          (of_int16 (X ! 3 ! t ! i + X ! 5 ! t ! i))) [0..<T];
                   r = nbr_eucdistance nbrmed (map (\<lambda>t. nbr ! t) ind)
               in Inr (cos_dist, scatter (replicate T NaN) ind (fst r),
                       scatter (replicate T 0) ind (snd r))))
        else Inr (replicate T NaN, replicate T NaN, replicate T 0))"

text \<open>
  The two values \<^verbatim>\<open>dist_distance\<close> hands to \<^verbatim>\<open>nbr_eucdistance\<close>, by name: the
  baseline \<^verbatim>\<open>nbrmed = (gmed[3, i] - gmed[5, i]) / (gmed[3, i] + gmed[5, i])\<close> and, at
  time step \<open>t\<close>, \<^verbatim>\<open>nbr = (X[3, :, i] - X[5, :, i]) / (X[3, :, i] + X[5, :, i])\<close>. The
  difference and the sum are \<^verbatim>\<open>int16\<close> and wrap around; the division is a
  floating-point division, and no value is replaced by NaN before it.
\<close>

definition nbrmed :: "npfloat list \<Rightarrow> npfloat" where
  "nbrmed gmed = fl_div (fl_sub (gmed ! 3) (gmed ! 5)) (fl_add (gmed ! 3) (gmed ! 5))"


text \<open>
  \<^verbatim>\<open>cosdistance(ref, obs)\<close> of the toolbox, applied to a \<open>p \<times> N\<close> matrix of
  \<^verbatim>\<open>int16\<close> observations as the worker holds them. \<^verbatim>\<open>np.isnan\<close> is false on
  integers, so every date is computed:
  \<^verbatim>\<open>1 - np.sum(ref*obs[:,t])/(np.sqrt(np.sum(ref**2))*np.sqrt(np.sum(obs[:,t]**2)))\<close>.
  The product \<^verbatim>\<open>ref*obs[:,t]\<close> is a floating-point product; it broadcasts a vector
  of one value and raises on two vectors of different lengths. The squares
  \<^verbatim>\<open>obs[:,t]**2\<close> are computed in \<^verbatim>\<open>int16\<close> and wrap around; \<^verbatim>\<open>np.sum\<close> adds them
  as 64-bit integers, and the square root of a negative sum is NaN.
\<close>

definition broadcast_mul :: "npfloat list \<Rightarrow> npfloat list \<Rightarrow> error + npfloat list" where
  "broadcast_mul a b =
     (if length a = length b then Inr (map2 fl_mul a b)
      else if length a = 1 then Inr (map (\<lambda>y. fl_mul (a ! 0) y) b)
      else if length b = 1 then Inr (map (\<lambda>x. fl_mul x (b ! 0)) a)
      else Inl ValueError)"

definition cosdistance :: "npfloat list \<Rightarrow> int16 list list \<Rightarrow> error + npfloat list" where
  "cosdistance ref obs =
     (if obs = [] then Inl IndexError
      else
        let N = length (obs ! 0) in
        case broadcast_mul ref (map (\<lambda>band. of_int16 (band ! 0)) obs) of
          Inl e \<Rightarrow> if N = 0 then Inr [] else Inl e
        | Inr _ \<Rightarrow>
            Inr (map (\<lambda>t.
                   case broadcast_mul ref (map (\<lambda>band. of_int16 (band ! t)) obs) of
                     Inl e \<Rightarrow> NaN
                   | Inr pr \<Rightarrow>
                       fl_sub (Fin 1)
                         (fl_div (fl_sum pr)
                            (fl_mul (fl_sqrt (fl_sum (map fl_sq ref)))
                               (fl_sqrt (Fin (real_of_int
                                  (sum_list (map (\<lambda>band. sint (band ! t * band ! t)) obs))))))))
                 [0..<N]))"

text \<open>
  The NBR grid of \<^verbatim>\<open>distances\<close>, at one pixel and time step:
  \<^verbatim>\<open>nir[nir <= 0] = np.nan\<close>, \<^verbatim>\<open>swir2[swir2 <= 0] = np.nan\<close>,
  \<^verbatim>\<open>nbr = ((nir - swir2) / (nir + swir2))\<close>.
\<close>

definition distances_nbr :: "int16 \<Rightarrow> int16 \<Rightarrow> npfloat" where
  "distances_nbr nir swir2 =
     (let nir' = (if sint nir \<le> 0 then NaN else of_int16 nir);
          swir2' = (if sint swir2 \<le> 0 then NaN else of_int16 swir2)
      in fl_div (fl_sub nir' swir2') (fl_add nir' swir2'))"

subsection \<open>Outlier thresholds\<close>

text \<open>
  Modelled from the spec: \<^verbatim>\<open>nanpercentile\<close> is imported from the module \<^verbatim>\<open>stats\<close>,
  which is not among the sources. The specification describes it as the percentiles of
  a distance distribution across all valid samples of the scene, invalid entries
  ignored, one global value per percentile broadcast to the grid shape, and undefined
  for a scene without a valid sample. The percentile of the sorted valid samples is
  taken with NumPy's linear interpolation between the two nearest ranks.
\<close>

definition percentile :: "real list \<Rightarrow> real \<Rightarrow> npfloat" where
  "percentile vs q =
     (if vs = [] then NaN
      else
        let s = sort vs;
            h = (real (length s) - 1) * q / 100;
            lo = nat \<lfloor>h\<rfloor>;
            hi = min (lo + 1) (length s - 1)
        in Fin (s ! lo + (h - real lo) * (s ! hi - s ! lo)))"

definition valid_samples :: "npfloat list list \<Rightarrow> real list" where
  "valid_samples a = concat (map (\<lambda>g. concat (map (\<lambda>v. case v of Fin r \<Rightarrow> [r] | _ \<Rightarrow> []) g)) a)"

definition grid_size :: "'a list list \<Rightarrow> nat" where
  "grid_size a = (case a of [] \<Rightarrow> 0 | g # _ \<Rightarrow> length g)"

definition nanpercentile :: "npfloat list list \<Rightarrow> real list \<Rightarrow> npfloat list list" where
  "nanpercentile a qs = map (\<lambda>q. replicate (grid_size a) (percentile (valid_samples a) q)) qs"

text \<open>
  \<^verbatim>\<open>BurnCube.outliers\<close>:
  \<^verbatim>\<open>NBRps = nanpercentile(self.dists.NBRDist.data, [25,75])\<close>,
  \<^verbatim>\<open>NBRoutlier = NBRps[1] + 1.5 * (NBRps[1]-NBRps[0])\<close>, and the same for the cosine
  distance. The arithmetic is elementwise on the grids.
\<close>

definition tukey :: "npfloat list list \<Rightarrow> npfloat list" where
  "tukey ps = map2 (\<lambda>q3 q1. fl_add q3 (fl_mul (Fin 1.5) (fl_sub q3 q1))) (ps ! 1) (ps ! 0)"

definition outliers :: "dists \<Rightarrow> outlrs" where
  "outliers d =
     (let NBRps = nanpercentile (dists_NBRDist d) [25, 75];
          NBRoutlier = tukey NBRps;
          CDistps = nanpercentile (dists_cosdist d) [25, 75];
          CDistoutlier = tukey CDistps
      in \<lparr>outlrs_CDistoutlier = CDistoutlier, outlrs_NBRoutlier = NBRoutlier\<rparr>)"

subsection \<open>Region growing\<close>

text \<open>
  \<^verbatim>\<open>str(d)[:10]\<close> keeps the calendar date of a timestamp and
  \<^verbatim>\<open>np.datetime64\<close> reads it back as the start of that day.
  \<^verbatim>\<open>np.where(self.dists.time > np.datetime64(di))[0][0]\<close> is the index of the first
  observation later than the start of the day of \<open>d\<close>; indexing the empty result of
  \<^verbatim>\<open>np.where\<close> raises \<^verbatim>\<open>IndexError\<close>.
\<close>

definition ns_per_day :: int where
  "ns_per_day = 24 * 60 * 60 * 10 ^ 9"

definition day_start :: "int \<Rightarrow> int" where
  "day_start d = (d div ns_per_day) * ns_per_day"

definition first_after :: "int list \<Rightarrow> int \<Rightarrow> error + nat" where
  "first_after time d =
     (case filter (\<lambda>t. day_start d < time ! t) [0..<length time] of
        [] \<Rightarrow> Inl IndexError
      | ti # _ \<Rightarrow> Inr ti)"

text \<open>
  \<^verbatim>\<open>Potential = ((NBR_score > z_distance) & (cos_score > z_distance)).astype(int)\<close>
  at the time index \<open>ti\<close>, with
  \<^verbatim>\<open>NBR_score = (ChangeDir * NBRDist)[ti, :, :] / NBRoutlier\<close> and
  \<^verbatim>\<open>cos_score = (ChangeDir * cosdist)[ti, :, :] / CDistoutlier\<close>.
\<close>

definition z_distance :: npfloat where
  "z_distance = Fin (2 / 3)"

definition fraction_seedmap :: npfloat where
  "fraction_seedmap = Fin 0.25"

definition Potential :: "dists \<Rightarrow> outlrs \<Rightarrow> nat \<Rightarrow> int list" where
  "Potential d out ti =
     map (\<lambda>p.
        let dir = Fin (real_of_int (dists_ChangeDir d ! ti ! p));
            NBR_score = fl_div (fl_mul dir (dists_NBRDist d ! ti ! p)) (outlrs_NBRoutlier out ! p);
            cos_score = fl_div (fl_mul dir (dists_cosdist d ! ti ! p)) (outlrs_CDistoutlier out ! p)
        in if fl_gt NBR_score z_distance \<and> fl_gt cos_score z_distance then 1 else 0)
       [0..<length (dists_y d) * length (dists_x d)]"

text \<open>
  The loop \<^verbatim>\<open>for ri in range(1, np.max(np.unique(all_labels)))\<close> with the body
  \<^verbatim>\<open>NewPotential[all_labels == ri] = np.mean(np.extract(all_labels == ri, SeedMap))\<close>,
  started from a grid of zeros. \<^verbatim>\<open>np.max\<close> raises on a grid without pixels.
\<close>

definition label_mean :: "int list \<Rightarrow> int list \<Rightarrow> int \<Rightarrow> npfloat" where
  "label_mean all_labels SeedMap ri =
     (let vs = map snd (filter (\<lambda>(lab, s). lab = ri) (zip all_labels SeedMap))
      in fl_div (Fin (real_of_int (sum_list vs))) (Fin (real (length vs))))"

definition NewPotential :: "int list \<Rightarrow> int list \<Rightarrow> npfloat list \<Rightarrow> error + npfloat list" where
  "NewPotential all_labels SeedMap zeros =
     (case all_labels of
        [] \<Rightarrow> Inl ValueError
      | l # ls \<Rightarrow>
          Inr (foldl (\<lambda>np ri. map (\<lambda>(v, lab). if lab = ri then label_mean all_labels SeedMap ri else v)
                                  (zip np all_labels))
                 zeros (range_up 1 (foldl max l ls) 1)))"

text \<open>
  One pass of \<^verbatim>\<open>for d in ChangeDates\<close>. The state is
  \<open>(AnnualMap, Startdates, tmpMap)\<close>; \<open>ref_date\<close> is \<^verbatim>\<open>ChangeDates[ii]\<close>. \<open>label\<close>
  is \<^verbatim>\<open>skimage.measure.label\<close> with background \<open>0\<close>, a parameter here; its result
  has the shape of its argument, which is the shape of every grid of the scene.
\<close>

definition growing_step ::
  "(int list \<Rightarrow> int list) \<Rightarrow> dists \<Rightarrow> outlrs \<Rightarrow> int list \<Rightarrow> int
     \<Rightarrow> int list \<times> npfloat list \<times> int list \<Rightarrow> int
     \<Rightarrow> error + (int list \<times> npfloat list \<times> int list)" where
  "growing_step label d out SeedMap ref_date st date =
     (case st of (AnnualMap, Startdates, tmpMap) \<Rightarrow>
      case first_after (dists_time d) date of
        Inl e \<Rightarrow> Inl e
      | Inr ti \<Rightarrow>
     (case NewPotential (label (Potential d out ti)) SeedMap (map (\<lambda>_. Fin 0) SeedMap) of
        Inl e \<Rightarrow> Inl e
      | Inr np \<Rightarrow>
          let AnnualMap' = map2 (\<lambda>a v. a + (if fl_gt v fraction_seedmap then 1 else 0)) AnnualMap np;
              tmp = map (\<lambda>a. if 0 < a then 1 else (0::int)) AnnualMap';
              Startdates' =
                (if date < ref_date then
                   map (\<lambda>(s, df). if df < 0 then Fin (real_of_int date) else s)
                       (zip Startdates (map2 (\<lambda>a b. a - b) tmp tmpMap))
                 else
                   map (\<lambda>(s, df). if 0 < df then Fin (real_of_int date) else s)
                       (zip Startdates (map2 (\<lambda>a b. a - b) tmp tmpMap)))
          in Inr (AnnualMap', Startdates', tmp)))"

fun growing_loop ::
  "(int list \<Rightarrow> int list) \<Rightarrow> dists \<Rightarrow> outlrs \<Rightarrow> int list \<Rightarrow> int
     \<Rightarrow> int list \<times> npfloat list \<times> int list \<Rightarrow> int list
     \<Rightarrow> error + (int list \<times> npfloat list \<times> int list)" where
  "growing_loop label d out SeedMap ref_date st [] = Inr st"
| "growing_loop label d out SeedMap ref_date st (date # dates) =
     (case growing_step label d out SeedMap ref_date st date of
        Inl e \<Rightarrow> Inl e
      | Inr st' \<Rightarrow> growing_loop label d out SeedMap ref_date st' dates)"

text \<open>
  \<^verbatim>\<open>region_growing(self, severity)\<close>, returning \<open>(BurnExtent, Startdates)\<close>; the
  argument \<open>severity\<close> is \<open>sev\<close> here. \<open>ChangeDates\<close> are the distinct start dates in
  ascending order (\<^verbatim>\<open>np.unique\<close>), \<open>sumpix\<close> counts the pixels of each, and
  \<^verbatim>\<open>np.max(sumpix)\<close> raises \<^verbatim>\<open>ValueError\<close> on an empty array. The function is
  written in two parts: \<open>growing_from\<close> is the body from \<^verbatim>\<open>z_distance = 2 / 3\<close> on,
  for the reference date \<^verbatim>\<open>ChangeDates[ii]\<close>. Storing a timestamp in the
  \<^verbatim>\<open>float64\<close> grid \<open>Startdates\<close> stores its number.
\<close>

definition growing_from ::
  "(int list \<Rightarrow> int list) \<Rightarrow> dists \<Rightarrow> outlrs \<Rightarrow> severity_out \<Rightarrow> int list \<Rightarrow> int
     \<Rightarrow> error + (int list \<times> npfloat list)" where
  "growing_from label d out sev ChangeDates ref_date =
     (case first_after (dists_time d) ref_date of
        Inl e \<Rightarrow> Inl e
      | Inr ti \<Rightarrow>
          let Pot = Potential d out ti;
              SeedMap = map (\<lambda>v. if 0 < v then 1 else (0::int)) (Severe sev);
              all_labels = label Pot
          in
          case NewPotential all_labels SeedMap (map (\<lambda>_. Fin 0) all_labels) of
            Inl e \<Rightarrow> Inl e
          | Inr np \<Rightarrow>
              let AnnualMap = map (\<lambda>_. 0::int) all_labels;
                  Startdates = map (\<lambda>v. if fl_gt v (Fin 0) then Fin (real_of_int ref_date) else Fin 0) np;
                  tmpMap = map (\<lambda>v. if fl_gt v (Fin 0) then 1 else (0::int)) np
              in
              case growing_loop label d out SeedMap ref_date (AnnualMap, Startdates, tmpMap) ChangeDates of
                Inl e \<Rightarrow> Inl e
              | Inr (AnnualMap', Startdates', tmpMap') \<Rightarrow>
                  Inr (map (\<lambda>a. if 0 < a then 1 else 0) AnnualMap', Startdates'))"

definition region_growing ::
  "(int list \<Rightarrow> int list) \<Rightarrow> dists \<Rightarrow> outlrs \<Rightarrow> severity_out
     \<Rightarrow> error + (int list \<times> npfloat list)" where
  "region_growing label d out sev =
     (let Start_Date = concat (map (\<lambda>v. case v of None \<Rightarrow> [] | Some t \<Rightarrow> [t]) (StartDate sev));
          ChangeDates = sort (remdups Start_Date);
          sumpix = map (\<lambda>date. length (filter (\<lambda>t. t = date) Start_Date)) ChangeDates
      in
      case sumpix of
        [] \<Rightarrow> Inl ValueError
      | c # cs \<Rightarrow>
          let ii = hd (filter (\<lambda>k. sumpix ! k = foldl max c cs) [0..<length sumpix])
          in growing_from label d out sev ChangeDates (ChangeDates ! ii))"

subsection \<open>Notions of the specification\<close>

text \<open>
  The sequence of valid observations of a pixel, as \<^verbatim>\<open>severity\<close> forms it:
  \<^verbatim>\<open>cosdist = CDist[notnanind]\<close> and \<^verbatim>\<open>time = Time[notnanind]\<close>.
\<close>

definition valid_cosdist :: "npfloat list \<Rightarrow> npfloat list" where
  "valid_cosdist CDist = map (\<lambda>i. CDist ! i) (notnanind CDist)"

definition valid_time :: "npfloat list \<Rightarrow> int list \<Rightarrow> int list" where
  "valid_time CDist Time = map (\<lambda>i. Time ! i) (notnanind CDist)"

text \<open>
  The specification's linked consecutive outlier pairs: the positions \<open>k\<close> of the
  sequence of valid observations such that \<open>k\<close> is an outlier and the next valid
  observation, \<open>k + 1\<close>, is an outlier too. A pair is named by its first position.
\<close>

definition linked :: "nat list \<Rightarrow> nat list" where
  "linked outlierind = filter (\<lambda>k. Suc k \<in> set outlierind) outlierind"

text \<open>The real number a finite float stands for.\<close>

definition the_fin :: "npfloat \<Rightarrow> real" where
  "the_fin x = (case x of Fin r \<Rightarrow> r | _ \<Rightarrow> 0)"

text \<open>
  The specification's contribution of the pair at \<open>k\<close>:
  \<open>0.5 \<times> ((cos(t1) + cos(t0)) - 2 \<times> threshold) \<times> \<Delta>days(t0, t1)\<close>.
\<close>

definition pair_area :: "npfloat list \<Rightarrow> real \<Rightarrow> int list \<Rightarrow> nat \<Rightarrow> real" where
  "pair_area cosdist thr time k =
     0.5 * ((the_fin (cosdist ! (k + 1)) + the_fin (cosdist ! k)) - 2 * thr)
         * days_between (time ! k) (time ! (k + 1))"

text \<open>The test of \<^verbatim>\<open>severity\<close>'s loop at the outlier number \<open>ii\<close>.\<close>

definition step_cond :: "int list \<Rightarrow> nat list \<Rightarrow> nat \<Rightarrow> bool" where
  "step_cond time oi ii =
     (oi ! ii + 1 < length time \<and> time ! (oi ! ii + 1) \<in> set (map (\<lambda>i. time ! i) oi))"

text \<open>
  A matrix of finite values, and the invariant of the geometric median's loop: the
  estimate is a vector of finite values, one per band.
\<close>

definition fin_matrix :: "npfloat list list \<Rightarrow> bool" where
  "fin_matrix X = (\<forall>b<length X. \<forall>t<length (X ! 0). isfin (X ! b ! t))"

definition gm_inv :: "npfloat list list \<Rightarrow> npfloat list \<Rightarrow> bool" where
  "gm_inv X y = (list_all isfin y \<and> length y = length X)"

text \<open>
  The specification's Tukey fence of a distance array: \<open>Q3 + 1.5 \<times> (Q3 - Q1)\<close> for the
  25th and 75th percentiles \<open>Q1\<close> and \<open>Q3\<close> of its valid samples.
\<close>

definition fence :: "npfloat list list \<Rightarrow> npfloat" where
  "fence a = (let Q1 = percentile (valid_samples a) 25; Q3 = percentile (valid_samples a) 75
              in fl_add Q3 (fl_mul (Fin 1.5) (fl_sub Q3 Q1)))"

subsection \<open>Example data\<close>

text \<open>
  The toolbox's \<^verbatim>\<open>cosdistance\<close> in the place of \<^verbatim>\<open>cos_distance\<close>, called as the
  worker calls it, on its \<^verbatim>\<open>int16\<close> observations.
\<close>

definition cos_distance_toolbox :: "npfloat list \<Rightarrow> int16 list list \<Rightarrow> error + npfloat list" where
  "cos_distance_toolbox ref obs = cosdistance ref obs"

text \<open>
  A cube of six bands, one time step and one pixel whose \<open>nir\<close> value (band 3) is \<open>0\<close>
  while the other bands are positive, and the column of its geometric median.
\<close>

definition X1 :: "int16 list list list" where
  "X1 = [[[5]], [[5]], [[5]], [[0]], [[5]], [[5]]]"

definition gmed1 :: "npfloat list" where
  "gmed1 = [Fin 5, Fin 5, Fin 5, Fin 0, Fin 5, Fin 5]"

text \<open>
  Two cubes of six bands, two time steps and one pixel. The second time step of \<open>X2\<close>
  is masked (all bands \<open>0\<close>); \<open>X2'\<close> differs from \<open>X2\<close> at that time step only, where
  its band 1 is still \<open>0\<close>.
\<close>

definition X2 :: "int16 list list list" where
  "X2 = [[[3], [0]], [[4], [0]], [[5], [0]], [[6], [0]], [[7], [0]], [[2], [0]]]"

definition X2' :: "int16 list list list" where
  "X2' = [[[3], [9]], [[4], [0]], [[5], [8]], [[6], [0]], [[7], [1]], [[2], [0]]]"

definition gmed2 :: "npfloat list" where
  "gmed2 = [Fin 3, Fin 4, Fin 5, Fin 6, Fin 7, Fin 2]"



text \<open>
  A cube of six bands, two time steps and two pixels. The first pixel has two valid
  observations, which differ in band 0 only; the second pixel is masked at both time
  steps.
\<close>

definition X7 :: "int16 list list list" where
  "X7 = [[[1, 0], [3, 0]], [[5, 0], [5, 0]], [[5, 0], [5, 0]], [[5, 0], [5, 0]], [[5, 0], [5, 0]],
         [[5, 0], [5, 0]]]"

text \<open>
  A scene of one pixel and one time step: the cosine distance is above its threshold
  and the NBR is negative, the NBR distance is below its threshold and the direction
  is \<open>0\<close>.
\<close>

definition scene1 :: dists where
  "scene1 = \<lparr>dists_time = [0], dists_y = [0], dists_x = [0],
              dists_cosdist = [[Fin 1]], dists_NBRDist = [[Fin 0.1]],
              dists_ChangeDir = [[0]], dists_NBR = [[Fin (- 0.1)]]\<rparr>"

definition thresholds1 :: outlrs where
  "thresholds1 = \<lparr>outlrs_CDistoutlier = [Fin 0.5], outlrs_NBRoutlier = [Fin 0.5]\<rparr>"

text \<open>
  A scene of one pixel and one time step: the cosine distance and the NBR distance are
  above their thresholds and the direction is \<open>1\<close>, and the NBR is positive.
\<close>

definition scene3 :: dists where
  "scene3 = \<lparr>dists_time = [0], dists_y = [0], dists_x = [0],
              dists_cosdist = [[Fin 1]], dists_NBRDist = [[Fin 0.9]],
              dists_ChangeDir = [[1]], dists_NBR = [[Fin 0.1]]\<rparr>"

text \<open>
  A scene of two pixels and two observations, at midnight of two consecutive days; all
  valid distances of one kind are equal. The second pixel's start date is the last
  observation.
\<close>

definition scene2 :: dists where
  "scene2 = \<lparr>dists_time = [0, 86400000000000], dists_y = [0], dists_x = [0, 1],
              dists_cosdist = [[Fin 0.1, Fin 0.1], [NaN, Fin 0.1]],
              dists_NBRDist = [[Fin 0.3, NaN], [Fin 0.3, Fin 0.3]],
              dists_ChangeDir = [[0, 0], [0, 0]],
              dists_NBR = [[Fin 0.2, Fin 0.2], [NaN, Fin 0.2]]\<rparr>"

definition thresholds2 :: outlrs where
  "thresholds2 = \<lparr>outlrs_CDistoutlier = [Fin 0.5, Fin 0.5], outlrs_NBRoutlier = [Fin 0.5, Fin 0.5]\<rparr>"

definition severity2 :: severity_out where
  "severity2 = \<lparr>StartDate = [None, Some 86400000000000], Severe = [0, 1]\<rparr>"

text \<open>
  The cosine distances of one pixel over five time steps on days 0, 1, 2, 4 and 5, the
  second without an observation.
\<close>

definition CDist3 :: "npfloat list" where
  "CDist3 = [Fin 0.1, NaN, Fin 0.9, Fin 0.8, Fin 0.2]"

definition Time3 :: "int list" where
  "Time3 = [0, 86400000000000, 172800000000000, 345600000000000, 432000000000000]"

section \<open>Properties\<close>

subsection \<open>Floating-point values\<close>

lemma isfin_iff: "isfin x \<longleftrightarrow> (\<exists>r. x = Fin r)"
  by (cases x) simp_all

lemma fl_add_nonfin: "\<not> isfin a \<or> \<not> isfin b \<Longrightarrow> \<not> isfin (fl_add a b)"
  by (cases a; cases b) simp_all

lemma fl_sum_Fin: "fl_sum (map Fin rs) = Fin (sum_list rs)"
  by (induction rs) (simp_all add: fl_sum_def)

lemma fl_sum_nonfin: "\<exists>x\<in>set xs. \<not> isfin x \<Longrightarrow> \<not> isfin (fl_sum xs)"
proof (induction xs)
  case Nil
  then show ?case by simp
next
  case (Cons a xs)
  have s: "fl_sum (a # xs) = fl_add a (fl_sum xs)" by (simp add: fl_sum_def)
  show ?case
  proof (cases "isfin a")
    case True
    with Cons show ?thesis unfolding s by (intro fl_add_nonfin) auto
  next
    case False
    then show ?thesis unfolding s by (intro fl_add_nonfin) auto
  qed
qed

lemma fl_div_nonfin: "\<not> isfin a \<Longrightarrow> \<not> isfin b \<Longrightarrow> fl_div a b = NaN"
  by (cases a; cases b) simp_all

lemma fl_sum_all_fin: "list_all isfin xs \<Longrightarrow> fl_sum xs = Fin (sum_list (map (\<lambda>x. case x of Fin r \<Rightarrow> r | _ \<Rightarrow> 0) xs))"
proof (induction xs)
  case Nil
  then show ?case by (simp add: fl_sum_def)
next
  case (Cons a xs)
  then show ?case by (cases a) (simp_all add: fl_sum_def)
qed

subsection \<open>Chunking\<close>

lemma range_up_1: "range_up a b 1 = [a..b - 1]"
proof (induction a b "1::int" rule: range_up.induct)
  case (1 i stop)
  show ?case
  proof (cases "i < stop")
    case True
    then have "[i..stop - 1] = i # [i + 1..stop - 1]"
      by (simp add: upto_rec1)
    with True 1 show ?thesis by (subst range_up.simps) simp
  next
    case False
    then show ?thesis by (subst range_up.simps) simp
  qed
qed

lemma visited_chunks_aux:
  "0 < c \<Longrightarrow> i \<le> n \<Longrightarrow>
   visited (map (\<lambda>i. (i, min n (i + c))) (range_up i n c)) = [i..n - 1]"
proof (induction i n c rule: range_up.induct)
  case (1 i stop step)
  show ?case
  proof (cases "i < stop")
    case True
    let ?m = "min stop (i + step)"
    have le: "i + step \<le> stop \<or> stop < i + step" by arith
    have IH: "visited (map (\<lambda>i. (i, min stop (i + step))) (range_up (i + step) stop step))
        = [i + step..stop - 1]" if "i + step \<le> stop"
      using "1.IH" "1.prems" True that by simp
    show ?thesis
    proof (cases "i + step \<le> stop")
      case T2: True
      have "[i..stop - 1] = [i..(i + step) - 1] @ [i + step..stop - 1]"
      proof (cases "i + step = stop")
        case True
        then show ?thesis by simp
      next
        case False
        with T2 "1.prems" show ?thesis by (intro upto_split1) auto
      qed
      then show ?thesis
        using True "1.prems" T2 IH[OF T2]
        by (subst range_up.simps) (simp add: visited_def range_up_1 min_def)
    next
      case F2: False
      then have e: "range_up (i + step) stop step = []"
        by (subst range_up.simps) simp
      show ?thesis
        using True "1.prems" F2 e
        by (subst range_up.simps) (simp add: visited_def range_up_1 min_def)
    qed
  next
    case False
    with 1 show ?thesis by (subst range_up.simps) (simp add: visited_def)
  qed
qed

lemma chunks_partition:
  assumes "1 \<le> n_procs" "n_procs \<le> n"
  shows "chunks n n_procs =
           Inr (map (\<lambda>i. (i, min n (i + n div n_procs))) (range_up 0 n (n div n_procs)))
         \<and> visited (map (\<lambda>i. (i, min n (i + n div n_procs))) (range_up 0 n (n div n_procs))) = [0..n - 1]"
proof -
  have c: "0 < n div n_procs"
    using assms by (simp add: pos_imp_zdiv_pos_iff)
  have "chunks n n_procs =
           Inr (map (\<lambda>i. (i, min n (i + n div n_procs))) (range_up 0 n (n div n_procs)))"
    using assms c by (simp add: chunks_def py_range_def Let_def)
  moreover have "visited (map (\<lambda>i. (i, min n (i + n div n_procs))) (range_up 0 n (n div n_procs))) = [0..n - 1]"
    using c assms by (intro visited_chunks_aux) auto
  ultimately show ?thesis by simp
qed

text \<open>
  Claim C9 asks for a partition of \<open>[0, N)\<close> for every pixel count and worker count.
  \<open>chunks_partition\<close> shows it for \<open>1 \<le> n_procs \<le> N\<close>. With fewer pixels than
  workers the chunk length is \<open>0\<close> and \<^verbatim>\<open>range(0, n, 0)\<close> raises: three pixels and
  the default four workers give no chunks at all.
\<close>

theorem chunks_fewer_pixels_than_workers: "chunks 3 4 = Inl ValueError"
  by (simp add: chunks_def py_range_def)

subsection \<open>NBR distance and change direction\<close>




subsection \<open>The geometric median\<close>

lemma sum_list_pos_real: "xs \<noteq> [] \<Longrightarrow> (\<And>x. x \<in> set xs \<Longrightarrow> 0 < x) \<Longrightarrow> 0 < sum_list (xs :: real list)"
proof (induction xs)
  case Nil
  then show ?case by simp
next
  case (Cons a xs)
  have "0 < a" using Cons.prems(2) by simp
  moreover have "0 \<le> sum_list xs"
    by (rule sum_list_nonneg) (use Cons.prems(2) in \<open>auto intro: less_imp_le\<close>)
  ultimately show ?case by simp
qed

lemma fin_matrixD: "fin_matrix X \<Longrightarrow> b < length X \<Longrightarrow> t < length (X ! 0) \<Longrightarrow> \<exists>x. X ! b ! t = Fin x"
  by (simp add: fin_matrix_def isfin_iff)

lemma list_all_isfinD: "list_all isfin ys \<Longrightarrow> b < length ys \<Longrightarrow> \<exists>y. ys ! b = Fin y"
  by (simp add: list_all_length isfin_iff)

lemma isfin_the_fin: "isfin x \<Longrightarrow> x = Fin (the_fin x)"
  by (cases x) (simp_all add: the_fin_def)

lemma fl_sum_map_fin:
  assumes "\<And>k. k \<in> set ks \<Longrightarrow> isfin (f k)"
  shows "fl_sum (map f ks) = Fin (\<Sum>k\<leftarrow>ks. the_fin (f k))"
proof -
  have "map f ks = map Fin (map (\<lambda>k. the_fin (f k)) ks)"
    using assms by (auto intro: isfin_the_fin)
  then show ?thesis by (simp only: fl_sum_Fin)
qed

lemma EucNorm_fin:
  assumes "\<forall>b<length X. isfin (X ! b ! t)" "list_all isfin y0" "length y0 = length X"
  shows "\<exists>r\<ge>0. EucNorm X y0 t = Fin r"
proof -
  have "isfin (fl_sq (fl_sub (X ! b ! t) (y0 ! b)))" if "b \<in> set [0..<length X]" for b
  proof -
    from that assms(1) have "isfin (X ! b ! t)" by simp
    moreover from that assms(2,3) have "isfin (y0 ! b)" by (simp add: list_all_length)
    ultimately obtain x y where "X ! b ! t = Fin x" "y0 ! b = Fin y"
      by (auto simp: isfin_iff)
    then show ?thesis by (simp add: fl_sq_def fl_sub_def)
  qed
  then have s: "fl_sum (map (\<lambda>b. fl_sq (fl_sub (X ! b ! t) (y0 ! b))) [0..<length X])
      = Fin (\<Sum>b\<leftarrow>[0..<length X]. the_fin (fl_sq (fl_sub (X ! b ! t) (y0 ! b))))"
    by (rule fl_sum_map_fin)
  have nn: "0 \<le> the_fin (fl_sq (fl_sub (X ! b ! t) (y0 ! b)))" if "b \<in> set [0..<length X]" for b
  proof -
    from that assms(1) have "isfin (X ! b ! t)" by simp
    moreover from that assms(2,3) have "isfin (y0 ! b)" by (simp add: list_all_length)
    ultimately obtain x y where "X ! b ! t = Fin x" "y0 ! b = Fin y"
      by (auto simp: isfin_iff)
    then show ?thesis by (simp add: fl_sq_def fl_sub_def the_fin_def)
  qed
  have "0 \<le> (\<Sum>b\<leftarrow>[0..<length X]. the_fin (fl_sq (fl_sub (X ! b ! t) (y0 ! b))))"
    by (rule sum_list_nonneg) (use nn in auto)
  then show ?thesis
    unfolding EucNorm_def s by (auto simp: not_less)
qed

lemma NotNaN_all:
  assumes "fin_matrix X" "list_all isfin y0" "length y0 = length X"
  shows "NotNaN X y0 = [0..<length (X ! 0)]"
proof -
  have "\<not> isnan (EucNorm X y0 t)" if "t \<in> set [0..<length (X ! 0)]" for t
  proof -
    have "\<forall>b<length X. isfin (X ! b ! t)" using assms(1) that by (auto simp: fin_matrix_def)
    from EucNorm_fin[OF this assms(2,3)] show ?thesis by auto
  qed
  then show ?thesis unfolding NotNaN_def by (simp add: filter_id_conv)
qed

lemma gm_y1_length: "length (gm_y1 X y0) = length X"
  by (simp add: gm_y1_def)

lemma gm_y1_fin:
  assumes X: "fin_matrix X" and y0: "list_all isfin y0" and len: "length y0 = length X"
    and N: "0 < length (X ! 0)" and nonan: "\<not> list_ex isnan (gm_y1 X y0)"
  shows "list_all isfin (gm_y1 X y0)"
proof -
  let ?N = "length (X ! 0)"
  have E: "\<exists>r\<ge>0. EucNorm X y0 t = Fin r" if "t < ?N" for t
  proof -
    have "\<forall>b<length X. isfin (X ! b ! t)" using X that by (auto simp: fin_matrix_def)
    from EucNorm_fin[OF this y0 len] show ?thesis .
  qed
  have NN: "NotNaN X y0 = [0..<?N]" by (rule NotNaN_all[OF X y0 len])
  let ?D = "fl_sum (map (\<lambda>t. fl_div (Fin 1) (EucNorm X y0 t)) [0..<?N])"
  let ?num = "\<lambda>b. fl_sum (map (\<lambda>t. fl_div (X ! b ! t) (EucNorm X y0 t)) [0..<?N])"
  have y1: "gm_y1 X y0 = map (\<lambda>b. fl_div (?num b) ?D) [0..<length X]"
    by (simp add: gm_y1_def NN)
  show ?thesis
  proof (cases "\<exists>t<?N. EucNorm X y0 t = Fin 0")
    case True
    then obtain t where t: "t < ?N" and Et: "EucNorm X y0 t = Fin 0" by auto
    have "\<not> isfin (fl_div (Fin 1) (EucNorm X y0 t))" by (simp add: Et)
    then have D: "\<not> isfin ?D"
      using t by (intro fl_sum_nonfin) (auto intro!: bexI[of _ t])
    have "fl_div (?num b) ?D = NaN" if bl: "b < length X" for b
    proof -
      obtain x where "X ! b ! t = Fin x"
        using fin_matrixD[OF X bl t] by auto
      then have "\<not> isfin (fl_div (X ! b ! t) (EucNorm X y0 t))" by (simp add: Et)
      then have "\<not> isfin (?num b)"
        using t by (intro fl_sum_nonfin) (auto intro!: bexI[of _ t])
      with D show ?thesis by (rule fl_div_nonfin[rotated])
    qed
    then have "gm_y1 X y0 = map (\<lambda>b. NaN) [0..<length X]"
      unfolding y1 by simp
    with nonan show ?thesis
      by (cases "length X") (auto simp: list_ex_iff list_all_iff)
  next
    case False
    have pos: "\<exists>r>0. EucNorm X y0 t = Fin r" if "t < ?N" for t
    proof -
      from E[OF that] obtain r where "0 \<le> r" "EucNorm X y0 t = Fin r" by auto
      moreover from this False that have "r \<noteq> 0" by auto
      ultimately show ?thesis by auto
    qed
    have Df: "isfin (fl_div (Fin 1) (EucNorm X y0 t))
         \<and> 0 < the_fin (fl_div (Fin 1) (EucNorm X y0 t))" if "t \<in> set [0..<?N]" for t
    proof -
      from that pos[of t] obtain r where "0 < r" "EucNorm X y0 t = Fin r" by auto
      then show ?thesis by (simp add: the_fin_def)
    qed
    have D: "?D = Fin (\<Sum>t\<leftarrow>[0..<?N]. the_fin (fl_div (Fin 1) (EucNorm X y0 t)))"
      by (rule fl_sum_map_fin) (use Df in auto)
    have "0 < (\<Sum>t\<leftarrow>[0..<?N]. the_fin (fl_div (Fin 1) (EucNorm X y0 t)))"
    proof (rule sum_list_pos_real)
      show "map (\<lambda>t. the_fin (fl_div (Fin 1) (EucNorm X y0 t))) [0..<?N] \<noteq> []" using N by simp
    next
      fix x assume "x \<in> set (map (\<lambda>t. the_fin (fl_div (Fin 1) (EucNorm X y0 t))) [0..<?N])"
      then show "0 < x" using Df by auto
    qed
    then obtain dd where dd: "?D = Fin dd" "dd \<noteq> 0" using D by auto
    have "isfin (fl_div (?num b) ?D)" if bl: "b < length X" for b
    proof -
      have "isfin (fl_div (X ! b ! t) (EucNorm X y0 t))" if tt: "t \<in> set [0..<?N]" for t
      proof -
        from tt have tN: "t < ?N" by simp
        from fin_matrixD[OF X bl this] obtain x where "X ! b ! t = Fin x" by auto
        moreover from pos[OF tN] obtain r where "0 < r" "EucNorm X y0 t = Fin r" by auto
        ultimately show ?thesis by simp
      qed
      then have "?num b = Fin (\<Sum>t\<leftarrow>[0..<?N]. the_fin (fl_div (X ! b ! t) (EucNorm X y0 t)))"
        by (rule fl_sum_map_fin)
      then show ?thesis using dd by simp
    qed
    then show ?thesis unfolding y1 by (simp add: list_all_iff)
  qed
qed

lemma gm_loop_stop: "0 \<le> tol \<Longrightarrow> gm_loop X tol MaxInter y0 [Fin 0] l = Some y0"
  by (subst gm_loop.simps) (simp add: fl_gt_def fl_sum_def fl_sq_def)

lemma gm_loop_exit:
  "\<not> (fl_gt (fl_sqrt (fl_sum (map fl_sq eps))) (Fin tol) \<and> l < MaxInter)
   \<Longrightarrow> gm_loop X tol MaxInter y0 eps l = Some y0"
  by (subst gm_loop.simps) auto

lemma gm_loop_nan:
  "fl_gt (fl_sqrt (fl_sum (map fl_sq eps))) (Fin tol) \<and> l < MaxInter \<Longrightarrow> list_ex isnan (gm_y1 X y0)
   \<Longrightarrow> gm_loop X tol MaxInter y0 eps l = gm_loop X tol MaxInter y0 [Fin 0] l"
  by (subst gm_loop.simps) simp

lemma gm_loop_next:
  "fl_gt (fl_sqrt (fl_sum (map fl_sq eps))) (Fin tol) \<and> l < MaxInter \<Longrightarrow> \<not> list_ex isnan (gm_y1 X y0)
   \<Longrightarrow> gm_loop X tol MaxInter y0 eps l
       = gm_loop X tol MaxInter (gm_y1 X y0) (map2 fl_sub (gm_y1 X y0) y0) (l + 1)"
  by (subst gm_loop.simps) simp

text \<open>
  With a negative tolerance the test of the loop does not fail on \<open>eps = 0\<close>. A pass
  that finds a NaN in \<open>y1\<close> then repeats itself: \<open>y0\<close> and \<open>l\<close> are unchanged, so
  \<open>MaxInter\<close> does not stop the loop either.
\<close>

lemma gm_loop_some_inv:
  assumes "gm_loop X tol MaxInter y0 eps l = Some y"
  shows "\<not> (tol < 0 \<and> l < MaxInter \<and> list_ex isnan (gm_y1 X y0)
            \<and> (eps = [Fin (10\<^sup>2)] \<or> eps = [Fin 0]))"
proof (rule gm_loop.raw_induct[where P = "\<lambda>X tol MaxInter y0 eps l y.
         \<not> (tol < 0 \<and> l < MaxInter \<and> list_ex isnan (gm_y1 X y0)
            \<and> (eps = [Fin (10\<^sup>2)] \<or> eps = [Fin 0]))",
       OF _ assms])
  fix gm_loop' X tol MaxInter y0 eps l y
  assume IH: "\<And>X tol MaxInter y0 eps l y. gm_loop' X tol MaxInter y0 eps l = Some y \<Longrightarrow>
         \<not> (tol < 0 \<and> l < MaxInter \<and> list_ex isnan (gm_y1 X y0)
            \<and> (eps = [Fin (10\<^sup>2)] \<or> eps = [Fin 0]))"
    and eq: "(if fl_gt (fl_sqrt (fl_sum (map fl_sq eps))) (Fin tol) \<and> l < MaxInter
              then if list_ex isnan (gm_y1 X y0) then gm_loop' X tol MaxInter y0 [Fin 0] l
                   else gm_loop' X tol MaxInter (gm_y1 X y0) (map2 fl_sub (gm_y1 X y0) y0) (l + 1)
              else Some y0) = Some y"
  show "\<not> (tol < 0 \<and> l < MaxInter \<and> list_ex isnan (gm_y1 X y0)
            \<and> (eps = [Fin (10\<^sup>2)] \<or> eps = [Fin 0]))"
  proof
    assume a: "tol < 0 \<and> l < MaxInter \<and> list_ex isnan (gm_y1 X y0)
            \<and> (eps = [Fin (10\<^sup>2)] \<or> eps = [Fin 0])"
    have s: "sqrt (10000::real) = 100" by (rule real_sqrt_unique) simp_all
    from a have "eps = [Fin (10\<^sup>2)] \<or> eps = [Fin 0]" by simp
    then have c: "fl_gt (fl_sqrt (fl_sum (map fl_sq eps))) (Fin tol)"
    proof
      assume "eps = [Fin (10\<^sup>2)]"
      then show ?thesis using a by (simp add: fl_gt_def fl_sum_def fl_sq_def s)
    next
      assume "eps = [Fin 0]"
      then show ?thesis using a by (simp add: fl_gt_def fl_sum_def fl_sq_def)
    qed
    with a eq have "gm_loop' X tol MaxInter y0 [Fin 0] l = Some y" by simp
    from IH[OF this] a show False by simp
  qed
qed

lemma gm_loop_diverges:
  assumes "tol < 0" "0 < MaxInter" "list_ex isnan (gm_y1 X y0)"
  shows "gm_loop X tol MaxInter y0 [Fin (10\<^sup>2)] 0 = None"
proof (cases "gm_loop X tol MaxInter y0 [Fin (10\<^sup>2)] 0")
  case (Some y)
  from gm_loop_some_inv[OF this] assms show ?thesis by simp
qed simp

lemma gm_first_pass:
  assumes "tol < 100"
  shows "fl_gt (fl_sqrt (fl_sum (map fl_sq [Fin (10\<^sup>2)]))) (Fin tol)"
proof -
  have "sqrt (10000::real) = 100" by (rule real_sqrt_unique) simp_all
  then show ?thesis using assms by (simp add: fl_gt_def fl_sum_def fl_sq_def)
qed

lemma upt2: "[0..<2] = [0, 1]"
  by (simp add: upt_rec)

lemma upt6: "[0..<6] = [0, 1, 2, 3, 4, 5]"
  by (simp add: upt_rec)

lemma gm_loop_terminates:
  assumes tol: "0 \<le> tol"
  shows "\<exists>v. gm_loop X tol MaxInter y0 eps l = Some v
           \<and> (fin_matrix X \<and> 0 < length (X ! 0) \<and> gm_inv X y0 \<longrightarrow> gm_inv X v)"
proof (induction "nat (MaxInter - l)" arbitrary: y0 eps l)
  case 0
  then have "\<not> l < MaxInter" by simp
  then have "gm_loop X tol MaxInter y0 eps l = Some y0" by (intro gm_loop_exit) simp
  then show ?case by simp
next
  case (Suc n)
  let ?c = "fl_gt (fl_sqrt (fl_sum (map fl_sq eps))) (Fin tol) \<and> l < MaxInter"
  show ?case
  proof (cases ?c)
    case False
    then have "gm_loop X tol MaxInter y0 eps l = Some y0" by (rule gm_loop_exit)
    then show ?thesis by simp
  next
    case c: True
    show ?thesis
    proof (cases "list_ex isnan (gm_y1 X y0)")
      case True
      have "gm_loop X tol MaxInter y0 eps l = Some y0"
        using gm_loop_nan[OF c True] gm_loop_stop[OF tol] by simp
      then show ?thesis by simp
    next
      case False
      have n: "n = nat (MaxInter - (l + 1))" using Suc.hyps(2) by simp
      from Suc.hyps(1)[OF n] obtain v where
        v: "gm_loop X tol MaxInter (gm_y1 X y0) (map2 fl_sub (gm_y1 X y0) y0) (l + 1) = Some v"
        and inv: "fin_matrix X \<and> 0 < length (X ! 0) \<and> gm_inv X (gm_y1 X y0) \<longrightarrow> gm_inv X v"
        by blast
      have "gm_inv X (gm_y1 X y0)" if "fin_matrix X" "0 < length (X ! 0)" "gm_inv X y0"
        using gm_y1_fin[of X y0] gm_y1_length[of X y0] that False by (simp add: gm_inv_def)
      with inv have "fin_matrix X \<and> 0 < length (X ! 0) \<and> gm_inv X y0 \<longrightarrow> gm_inv X v" by blast
      moreover have "gm_loop X tol MaxInter y0 eps l = Some v"
        using gm_loop_next[OF c False] v by simp
      ultimately show ?thesis by blast
    qed
  qed
qed

lemma nanmean_fin:
  assumes "list_all isfin row" "row \<noteq> []"
  shows "isfin (nanmean row)"
proof -
  have f: "filter (\<lambda>v. \<not> isnan v) row = row"
    using assms(1) by (simp add: filter_id_conv list_all_iff isfin_iff) auto
  from assms(1) have "fl_sum row = Fin (sum_list (map (\<lambda>x. case x of Fin r \<Rightarrow> r | _ \<Rightarrow> 0) row))"
    by (rule fl_sum_all_fin)
  then show ?thesis using assms(2) by (simp add: nanmean_def f)
qed

lemma nanmean_empty: "nanmean [] = NaN"
  by (simp add: nanmean_def fl_sum_def)

subsection \<open>Severity\<close>

lemma severity_fold:
  assumes fin: "list_all isfin cosdist" and len: "length time = length cosdist"
    and oi: "\<forall>k\<in>set oi. k < length cosdist"
  shows "\<forall>ii\<in>set is. ii < length oi \<Longrightarrow>
     foldl (severity_step cosdist time oi (Fin thr)) (Fin a, d, tt) is =
       (Fin (a + (\<Sum>ii\<leftarrow>filter (step_cond time oi) is. pair_area cosdist thr time (oi ! ii))),
        d + (\<Sum>ii\<leftarrow>filter (step_cond time oi) is. days_between (time ! (oi ! ii)) (time ! (oi ! ii + 1))),
        tt @ filter (step_cond time oi) is)"
proof (induction "is" arbitrary: a d tt)
  case Nil
  then show ?case by simp
next
  case (Cons ii "is")
  have ii: "ii < length oi" using Cons.prems by simp
  then have k: "oi ! ii < length cosdist" using oi by simp
  obtain c0 where c0: "cosdist ! (oi ! ii) = Fin c0"
    using fin k by (auto simp: list_all_length isfin_iff)
  show ?case
  proof (cases "step_cond time oi ii")
    case True
    then have "oi ! ii + 1 < length cosdist" by (simp add: step_cond_def len)
    then obtain c1 where c1: "cosdist ! Suc (oi ! ii) = Fin c1"
      using fin by (auto simp: list_all_length isfin_iff)
    have step: "severity_step cosdist time oi (Fin thr) (Fin a, d, tt) ii =
        (Fin (a + pair_area cosdist thr time (oi ! ii)),
         d + days_between (time ! (oi ! ii)) (time ! (oi ! ii + 1)), tt @ [ii])"
      using True by (simp add: severity_step_def step_cond_def Let_def c0 c1 fl_sub_def pair_area_def the_fin_def)
    show ?thesis
      using Cons.IH[of "a + pair_area cosdist thr time (oi ! ii)"
          "d + days_between (time ! (oi ! ii)) (time ! (oi ! ii + 1))" "tt @ [ii]"] Cons.prems True
      by (simp add: step add.assoc)
  next
    case False
    then have step: "severity_step cosdist time oi (Fin thr) (Fin a, d, tt) ii = (Fin a, d, tt)"
      by (auto simp: severity_step_def step_cond_def Let_def)
    show ?thesis
      using Cons.IH[of a d tt] Cons.prems False by (simp add: step)
  qed
qed

lemma step_cond_linked:
  assumes dist: "distinct time" and oi: "\<forall>k\<in>set oi. k < length time" and ii: "ii < length oi"
  shows "step_cond time oi ii \<longleftrightarrow> Suc (oi ! ii) \<in> set oi"
proof
  assume "step_cond time oi ii"
  then have l: "oi ! ii + 1 < length time" and "time ! (oi ! ii + 1) \<in> set (map (\<lambda>i. time ! i) oi)"
    by (auto simp: step_cond_def)
  then obtain j where j: "j \<in> set oi" "time ! (oi ! ii + 1) = time ! j" by auto
  with oi have "j < length time" by simp
  with j l dist have "oi ! ii + 1 = j" by (simp add: nth_eq_iff_index_eq)
  with j show "Suc (oi ! ii) \<in> set oi" by simp
next
  assume s: "Suc (oi ! ii) \<in> set oi"
  with oi have "oi ! ii + 1 < length time" by auto
  with s show "step_cond time oi ii" by (auto simp: step_cond_def)
qed

lemma filter_step_linked:
  assumes dist: "distinct time" and oi: "\<forall>k\<in>set oi. k < length time"
  shows "map (\<lambda>ii. oi ! ii) (filter (step_cond time oi) [0..<length oi]) = linked oi"
proof -
  have "filter (step_cond time oi) [0..<length oi] = filter (\<lambda>ii. Suc (oi ! ii) \<in> set oi) [0..<length oi]"
    by (rule filter_cong) (use step_cond_linked[OF dist oi] in auto)
  moreover have "map (\<lambda>ii. oi ! ii) (filter (\<lambda>ii. Suc (oi ! ii) \<in> set oi) [0..<length oi])
      = filter (\<lambda>k. Suc k \<in> set oi) (map (\<lambda>ii. oi ! ii) [0..<length oi])"
    by (simp add: filter_map comp_def)
  ultimately show ?thesis by (simp add: linked_def map_nth)
qed

lemma outlier_indices_filter:
  "outlier_indices M cosdist nn thr NBR NBRDist NBRthr Sign = Inr (Some oi)
   \<Longrightarrow> \<exists>P. oi = filter P [0..<length cosdist]"
  unfolding outlier_indices_def Let_def
  by (auto split: if_splits sum.splits)

lemma notnanind_bound: "\<forall>i\<in>set (notnanind CDist). i < length CDist"
  by (simp add: notnanind_def)

lemma valid_cosdist_fin:
  "list_all (\<lambda>v. isnan v \<or> isfin v) CDist \<Longrightarrow> list_all isfin (valid_cosdist CDist)"
  by (auto simp: valid_cosdist_def notnanind_def list_all_iff)

lemma sorted_wrt_nth_filter:
  assumes "sorted_wrt (<) (xs :: int list)"
  shows "sorted_wrt (<) (map (\<lambda>i. xs ! i) (filter P [0..<length xs]))"
proof -
  have "sorted_wrt (\<lambda>i j. xs ! i < xs ! j) [0..<length xs]"
    using assms by (simp add: sorted_wrt_iff_nth_less)
  then have "sorted_wrt (\<lambda>i j. xs ! i < xs ! j) (filter P [0..<length xs])"
    by (rule sorted_wrt_filter)
  then show ?thesis by (simp add: sorted_wrt_map)
qed

lemma valid_time_sorted:
  "length Time = length CDist \<Longrightarrow> sorted_wrt (<) Time \<Longrightarrow> sorted_wrt (<) (valid_time CDist Time)"
  unfolding valid_time_def notnanind_def
  using sorted_wrt_nth_filter[of Time "\<lambda>i. \<not> isnan (CDist ! i)"] by simp

lemma strict_sorted_distinct: "sorted_wrt (<) (xs :: int list) \<Longrightarrow> distinct xs"
  by (induction xs) auto

lemma severity_unfold:
  assumes oi: "outlier_indices (case Method_arg of None \<Rightarrow> 3 | Some m \<Rightarrow> m) (valid_cosdist CDist)
                 (notnanind CDist) thr NBR NBRDist NBRoutlier Sign = Inr (Some oi)"
    and len: "length Time = length CDist"
  shows "severity CDist thr Time NBR NBRDist NBRoutlier Sign Method_arg =
     (if 2 \<le> length oi then
        (case foldl (severity_step (valid_cosdist CDist) (valid_time CDist Time) oi thr)
                    (Fin 0, 0, []) [0..<length oi] of
           (AreaAboveD0, duration, tt) \<Rightarrow>
             (case tt of
                [] \<Rightarrow> Inr (Fin 0, Zero, duration)
              | t # _ \<Rightarrow> Inr (AreaAboveD0, Timestamp (valid_time CDist Time ! (oi ! t)), duration)))
      else Inr (Fin 0, Zero, 0))"
proof -
  have t: "take_ind Time (notnanind CDist) = Inr (valid_time CDist Time)"
    using notnanind_bound[of CDist] len by (simp add: take_ind_def valid_time_def list_all_iff)
  show ?thesis
    unfolding severity_def Let_def
    using oi t by (simp add: valid_cosdist_def[symmetric])
qed

lemma severity_sum:
  assumes oi: "outlier_indices (case Method_arg of None \<Rightarrow> 3 | Some m \<Rightarrow> m) (valid_cosdist CDist)
                 (notnanind CDist) (Fin thr) NBR NBRDist NBRoutlier Sign = Inr (Some outlierind)"
    and len: "length Time = length CDist"
    and sorted: "sorted_wrt (<) Time"
    and fin: "list_all (\<lambda>v. isnan v \<or> isfin v) CDist"
  shows "severity CDist (Fin thr) Time NBR NBRDist NBRoutlier Sign Method_arg =
           Inr (Fin (\<Sum>k\<leftarrow>linked outlierind. pair_area (valid_cosdist CDist) thr (valid_time CDist Time) k),
                (case linked outlierind of [] \<Rightarrow> Zero | k # _ \<Rightarrow> Timestamp (valid_time CDist Time ! k)),
                (\<Sum>k\<leftarrow>linked outlierind. days_between (valid_time CDist Time ! k) (valid_time CDist Time ! (k + 1))))"
proof -
  let ?cos = "valid_cosdist CDist" and ?time = "valid_time CDist Time"
  from outlier_indices_filter[OF oi] obtain P where P: "outlierind = filter P [0..<length ?cos]" ..
  then have bound: "\<forall>k\<in>set outlierind. k < length ?cos" by simp
  have lt: "length ?time = length ?cos" by (simp add: valid_time_def valid_cosdist_def)
  have dist: "distinct ?time"
    using valid_time_sorted[OF len sorted] by (rule strict_sorted_distinct)
  have bound': "\<forall>k\<in>set outlierind. k < length ?time" using bound lt by simp
  have fold: "foldl (severity_step ?cos ?time outlierind (Fin thr)) (Fin 0, 0, []) [0..<length outlierind] =
       (Fin (0 + (\<Sum>ii\<leftarrow>filter (step_cond ?time outlierind) [0..<length outlierind]. pair_area ?cos thr ?time (outlierind ! ii))),
        0 + (\<Sum>ii\<leftarrow>filter (step_cond ?time outlierind) [0..<length outlierind]. days_between (?time ! (outlierind ! ii)) (?time ! (outlierind ! ii + 1))),
        [] @ filter (step_cond ?time outlierind) [0..<length outlierind])"
    by (rule severity_fold[OF valid_cosdist_fin[OF fin] lt bound]) simp
  let ?tt = "filter (step_cond ?time outlierind) [0..<length outlierind]"
  have L: "map (\<lambda>ii. outlierind ! ii) ?tt = linked outlierind"
    by (rule filter_step_linked[OF dist bound'])
  have s1: "(\<Sum>ii\<leftarrow>?tt. pair_area ?cos thr ?time (outlierind ! ii)) = (\<Sum>k\<leftarrow>linked outlierind. pair_area ?cos thr ?time k)"
    unfolding L[symmetric] by (simp add: comp_def)
  have s2: "(\<Sum>ii\<leftarrow>?tt. days_between (?time ! (outlierind ! ii)) (?time ! (outlierind ! ii + 1)))
      = (\<Sum>k\<leftarrow>linked outlierind. days_between (?time ! k) (?time ! (k + 1)))"
    unfolding L[symmetric] by (simp add: comp_def)
  show ?thesis
  proof (cases "2 \<le> length outlierind")
    case True
    show ?thesis
    proof (cases ?tt)
      case Nil
      with L have "linked outlierind = []" by simp
      with Nil True fold show ?thesis
        unfolding severity_unfold[OF oi len] by simp
    next
      case (Cons t ts)
      with L have "linked outlierind = outlierind ! t # map (\<lambda>ii. outlierind ! ii) ts" by simp
      with Cons True fold s1 s2 show ?thesis
        unfolding severity_unfold[OF oi len] by simp
    qed
  next
    case False
    then have "outlierind = [] \<or> (\<exists>k. outlierind = [k])"
      by (cases outlierind; cases "tl outlierind") auto
    then have "linked outlierind = []" by (auto simp: linked_def)
    with False show ?thesis
      unfolding severity_unfold[OF oi len] by simp
  qed
qed


lemma linked_two: "linked [k, Suc k] = [k]"
  by (simp add: linked_def)

text \<open>
  Claim C1. Let the chosen policy yield the outlier positions \<open>outlierind\<close> of the
  sequence of valid observations, the timestamps be strictly ascending and the cosine
  distances and their threshold finite. Then \<^verbatim>\<open>severity\<close> returns the sum over the
  linked pairs of \<open>0.5 \<times> ((cos(t1) + cos(t0)) - 2 \<times> threshold) \<times> \<Delta>days\<close> as severity
  index, the sum of their \<open>\<Delta>days\<close> as duration, and the timestamp of the first linked
  pair as start date. When the outliers are exactly two adjacent valid observations,
  the duration is the days between them, which is strictly positive, and the start
  date is the timestamp of the first.
\<close>

theorem severity_linked_pairs:
  assumes oi: "outlier_indices (case Method_arg of None \<Rightarrow> 3 | Some m \<Rightarrow> m) (valid_cosdist CDist)
                 (notnanind CDist) (Fin thr) NBR NBRDist NBRoutlier Sign = Inr (Some outlierind)"
    and len: "length Time = length CDist"
    and sorted: "sorted_wrt (<) Time"
    and fin: "list_all (\<lambda>v. isnan v \<or> isfin v) CDist"
  shows "severity CDist (Fin thr) Time NBR NBRDist NBRoutlier Sign Method_arg =
           Inr (Fin (\<Sum>k\<leftarrow>linked outlierind. pair_area (valid_cosdist CDist) thr (valid_time CDist Time) k),
                (case linked outlierind of [] \<Rightarrow> Zero | k # _ \<Rightarrow> Timestamp (valid_time CDist Time ! k)),
                (\<Sum>k\<leftarrow>linked outlierind. days_between (valid_time CDist Time ! k) (valid_time CDist Time ! (k + 1))))
         \<and> (\<forall>k. outlierind = [k, Suc k] \<longrightarrow>
               severity CDist (Fin thr) Time NBR NBRDist NBRoutlier Sign Method_arg =
                 Inr (Fin (pair_area (valid_cosdist CDist) thr (valid_time CDist Time) k),
                      Timestamp (valid_time CDist Time ! k),
                      days_between (valid_time CDist Time ! k) (valid_time CDist Time ! (k + 1)))
               \<and> 0 < days_between (valid_time CDist Time ! k) (valid_time CDist Time ! (k + 1)))"
proof (intro conjI allI impI)
  show "severity CDist (Fin thr) Time NBR NBRDist NBRoutlier Sign Method_arg =
           Inr (Fin (\<Sum>k\<leftarrow>linked outlierind. pair_area (valid_cosdist CDist) thr (valid_time CDist Time) k),
                (case linked outlierind of [] \<Rightarrow> Zero | k # _ \<Rightarrow> Timestamp (valid_time CDist Time ! k)),
                (\<Sum>k\<leftarrow>linked outlierind. days_between (valid_time CDist Time ! k) (valid_time CDist Time ! (k + 1))))"
    by (rule severity_sum[OF oi len sorted fin])
next
  fix k assume k: "outlierind = [k, Suc k]"
  show "severity CDist (Fin thr) Time NBR NBRDist NBRoutlier Sign Method_arg =
                 Inr (Fin (pair_area (valid_cosdist CDist) thr (valid_time CDist Time) k),
                      Timestamp (valid_time CDist Time ! k),
                      days_between (valid_time CDist Time ! k) (valid_time CDist Time ! (k + 1)))"
    using severity_sum[OF oi len sorted fin] by (simp add: k linked_two)
next
  fix k assume k: "outlierind = [k, Suc k]"
  let ?time = "valid_time CDist Time"
  from outlier_indices_filter[OF oi] obtain P where "outlierind = filter P [0..<length (valid_cosdist CDist)]" ..
  with k have "Suc k \<in> set (filter P [0..<length (valid_cosdist CDist)])" by simp
  then have "Suc k < length ?time" by (simp add: valid_time_def valid_cosdist_def)
  with valid_time_sorted[OF len sorted] have "?time ! k < ?time ! Suc k"
    by (simp add: sorted_wrt_iff_nth_less)
  then show "0 < days_between (?time ! k) (?time ! (k + 1))"
    by (simp add: days_between_def)
qed

lemma severity_fold_none:
  "\<forall>ii\<in>set is. \<not> step_cond time oi ii \<Longrightarrow>
     foldl (severity_step cosdist time oi thr) st is = st"
proof (induction "is")
  case Nil
  then show ?case by simp
next
  case (Cons ii "is")
  then have "severity_step cosdist time oi thr st ii = st"
    by (auto simp: severity_step_def step_cond_def Let_def split: prod.splits)
  with Cons show ?case by simp
qed

lemma scatter_length: "length (scatter a ind vals) = length a"
proof -
  have "length (foldl (\<lambda>acc (i, v). acc[i := v]) a ps) = length a" for ps :: "(nat \<times> 'a) list"
    by (induction ps arbitrary: a) (auto split: prod.splits)
  then show ?thesis by (simp add: scatter_def)
qed

lemma scatter_Cons: "scatter a (i # ind) (v # vals) = scatter (a[i := v]) ind vals"
  by (simp add: scatter_def)

lemma scatter_Nil: "scatter a [] vals = a" "scatter a ind [] = a"
  by (simp_all add: scatter_def)

lemma scatter_nth_notin:
  "length ind = length vals \<Longrightarrow> i \<notin> set ind \<Longrightarrow> scatter a ind vals ! i = a ! i"
proof (induction ind vals arbitrary: a rule: list_induct2)
  case Nil
  then show ?case by (simp add: scatter_Nil)
next
  case (Cons x xs y ys)
  then show ?case by (simp add: scatter_Cons)
qed

lemma scatter_nth:
  "length ind = length vals \<Longrightarrow> distinct ind \<Longrightarrow> j < length ind \<Longrightarrow> ind ! j < length a
   \<Longrightarrow> scatter a ind vals ! (ind ! j) = vals ! j"
proof (induction ind vals arbitrary: a j rule: list_induct2)
  case Nil
  then show ?case by simp
next
  case (Cons x xs y ys)
  show ?case
  proof (cases j)
    case 0
    with Cons show ?thesis by (simp add: scatter_Cons scatter_nth_notin)
  next
    case (Suc j')
    with Cons show ?thesis by (simp add: scatter_Cons)
  qed
qed

lemma startdate_grid_nan:
  assumes "length ind = length dates" "distinct ind" "j < length ind" "ind ! j < n"
    "dates ! j = startdate_float Zero"
  shows "severitymapping_startdate n ind dates ! (ind ! j) = NaN"
proof -
  have "scatter (replicate n (Fin 0)) ind dates ! (ind ! j) = Fin 0"
    using scatter_nth[OF assms(1,2,3), of "replicate n (Fin 0)"] assms(4,5) by simp
  then show ?thesis
    using assms(4) by (simp add: severitymapping_startdate_def zero_to_nan_def scatter_length)
qed

subsection \<open>Severity of the example pixel\<close>

lemma upt5: "[0..<5] = [0, 1, 2, 3, 4]"
  by (simp add: upt_rec)

lemma nn3: "notnanind CDist3 = [0, 2, 3, 4]"
  by (simp add: notnanind_def CDist3_def upt5)

lemma cos3: "valid_cosdist CDist3 = [Fin 0.1, Fin 0.9, Fin 0.8, Fin 0.2]"
  by (simp add: valid_cosdist_def nn3) (simp add: CDist3_def)

lemma time3: "valid_time CDist3 Time3 = [0, 172800000000000, 345600000000000, 432000000000000]"
  by (simp add: valid_time_def nn3) (simp add: Time3_def)

lemma oi3: "outlier_indices 1 (valid_cosdist CDist3) (notnanind CDist3) (Fin 0.5) [] [] NaN [] = Inr (Some [1, 2])"
  by (simp add: cos3 outlier_indices_def outlier1_def fl_gt_def upt_rec)

text \<open>
  The pixel of \<open>CDist3\<close> under Method 1 and the threshold \<open>0.5\<close>: the valid
  observations 1 and 2 (days 2 and 4) are the outliers, and the result is the area
  \<open>0.5 \<times> (0.8 + 0.9 - 1) \<times> 2 = 0.7\<close>, the start on day 2 and two days of duration.
\<close>

theorem severity_linked_pairs_witness:
  "outlier_indices 1 (valid_cosdist CDist3) (notnanind CDist3) (Fin 0.5) [] [] NaN [] = Inr (Some [1, 2])
   \<and> sorted_wrt (<) Time3
   \<and> severity CDist3 (Fin 0.5) Time3 [] [] NaN [] (Some 1) = Inr (Fin 0.7, Timestamp 172800000000000, 2)"
proof -
  have len: "length Time3 = length CDist3" by (simp add: Time3_def CDist3_def)
  have sorted: "sorted_wrt (<) Time3" by (simp add: Time3_def)
  have fin: "list_all (\<lambda>v. isnan v \<or> isfin v) CDist3" by (simp add: CDist3_def)
  have oi: "outlier_indices (case Some 1 of None \<Rightarrow> 3 | Some m \<Rightarrow> m) (valid_cosdist CDist3)
              (notnanind CDist3) (Fin 0.5) [] [] NaN [] = Inr (Some [1, 2])"
    using oi3 by simp
  have two: "[1::nat, 2] = [1, Suc 1]" by simp
  from severity_linked_pairs[OF oi len sorted fin, THEN conjunct2, rule_format, OF two]
  have "severity CDist3 (Fin 0.5) Time3 [] [] NaN [] (Some 1) =
          Inr (Fin (pair_area (valid_cosdist CDist3) 0.5 (valid_time CDist3 Time3) 1),
               Timestamp (valid_time CDist3 Time3 ! 1),
               days_between (valid_time CDist3 Time3 ! 1) (valid_time CDist3 Time3 ! (1 + 1)))"
    by (rule conjunct1)
  then have "severity CDist3 (Fin 0.5) Time3 [] [] NaN [] (Some 1) = Inr (Fin 0.7, Timestamp 172800000000000, 2)"
    by (simp add: cos3 time3 pair_area_def days_between_def the_fin_def)
  with oi3 sorted show ?thesis by simp
qed

subsection \<open>Severity without a linked pair\<close>

text \<open>
  Claim C2. Let the chosen policy yield the outlier positions \<open>outlierind\<close>. If there is
  at most one outlier, or the timestamps are strictly ascending and no outlier is
  followed by an outlier at the next valid observation, \<^verbatim>\<open>severity\<close> returns the
  severity index \<open>0\<close>, the duration \<open>0\<close> and the start date \<open>0\<close> it was initialised
  with; and \<^verbatim>\<open>severitymapping\<close> turns a start date \<open>0\<close> stored for a pixel into NaN,
  the undefined start date.
\<close>

theorem severity_no_linked_pair:
  assumes oi: "outlier_indices (case Method_arg of None \<Rightarrow> 3 | Some m \<Rightarrow> m) (valid_cosdist CDist)
                 (notnanind CDist) CDistoutlier NBR NBRDist NBRoutlier Sign = Inr (Some outlierind)"
    and len: "length Time = length CDist"
    and few: "length outlierind \<le> 1 \<or> (sorted_wrt (<) Time \<and> linked outlierind = [])"
  shows "severity CDist CDistoutlier Time NBR NBRDist NBRoutlier Sign Method_arg = Inr (Fin 0, Zero, 0)
         \<and> (\<forall>n ind dates j.
               length ind = length dates \<and> distinct ind \<and> j < length ind \<and> ind ! j < n
               \<and> dates ! j = startdate_float Zero
               \<longrightarrow> severitymapping_startdate n ind dates ! (ind ! j) = NaN)"
proof -
  let ?cos = "valid_cosdist CDist" and ?time = "valid_time CDist Time"
  have "severity CDist CDistoutlier Time NBR NBRDist NBRoutlier Sign Method_arg = Inr (Fin 0, Zero, 0)"
  proof (cases "2 \<le> length outlierind")
    case False
    then show ?thesis unfolding severity_unfold[OF oi len] by simp
  next
    case True
    with few have sorted: "sorted_wrt (<) Time" and nl: "linked outlierind = []" by auto
    from outlier_indices_filter[OF oi] obtain P where P: "outlierind = filter P [0..<length ?cos]" ..
    then have bound: "\<forall>k\<in>set outlierind. k < length ?time"
      by (simp add: valid_time_def valid_cosdist_def)
    have dist: "distinct ?time"
      using valid_time_sorted[OF len sorted] by (rule strict_sorted_distinct)
    have "filter (step_cond ?time outlierind) [0..<length outlierind] = []"
      using filter_step_linked[OF dist bound] nl by simp
    then have "\<forall>ii\<in>set [0..<length outlierind]. \<not> step_cond ?time outlierind ii"
      by (simp add: filter_empty_conv)
    then have "foldl (severity_step ?cos ?time outlierind CDistoutlier) (Fin 0, 0, []) [0..<length outlierind]
        = (Fin 0, 0, [])"
      by (rule severity_fold_none)
    with True show ?thesis unfolding severity_unfold[OF oi len] by simp
  qed
  then show ?thesis using startdate_grid_nan by blast
qed

text \<open>
  The pixel of \<open>CDist3\<close> under the default method with a single outlier, and a grid of
  two pixels of which the second was scored.
\<close>

theorem severity_no_linked_pair_witness:
  "outlier_indices 3 (valid_cosdist CDist3) (notnanind CDist3) (Fin 0.5) []
      [Fin 0, NaN, Fin 1, Fin 0, Fin 0] (Fin 0.5) [0, 0, 1, 0, 0] = Inr (Some [1])
   \<and> severity CDist3 (Fin 0.5) Time3 [] [Fin 0, NaN, Fin 1, Fin 0, Fin 0] (Fin 0.5) [0, 0, 1, 0, 0] None
       = Inr (Fin 0, Zero, 0)
   \<and> severitymapping_startdate 2 [1] [startdate_float Zero] ! 1 = NaN"
proof -
  have nn: "notnanind CDist3 = [0, 2, 3, 4]"
    by (simp add: notnanind_def CDist3_def upt_rec)
  have cos: "valid_cosdist CDist3 = [Fin 0.1, Fin 0.9, Fin 0.8, Fin 0.2]"
    by (simp add: valid_cosdist_def nn) (simp add: CDist3_def)
  have oi: "outlier_indices (case None of None \<Rightarrow> 3 | Some m \<Rightarrow> m) (valid_cosdist CDist3)
      (notnanind CDist3) (Fin 0.5) [] [Fin 0, NaN, Fin 1, Fin 0, Fin 0] (Fin 0.5) [0, 0, 1, 0, 0]
      = Inr (Some [1])"
    by (simp add: cos nn outlier_indices_def take_ind_def outlier3_def fl_gt_def upt_rec)
  have len: "length Time3 = length CDist3" by (simp add: Time3_def CDist3_def)
  have few: "length [1::nat] \<le> 1 \<or> (sorted_wrt (<) Time3 \<and> linked [1] = [])" by simp
  note inst = severity_no_linked_pair[OF oi len few]
  have g: "length [1::nat] = length [startdate_float Zero] \<and> distinct [1::nat] \<and> 0 < length [1::nat]
      \<and> [1::nat] ! 0 < 2 \<and> [startdate_float Zero] ! 0 = startdate_float Zero"
    by simp
  from inst[THEN conjunct2, rule_format, OF g]
  have "severitymapping_startdate 2 [1] [startdate_float Zero] ! 1 = NaN" by simp
  with inst oi show ?thesis by simp
qed

subsection \<open>The default outlier policy\<close>

lemma fl_sum_nil_not_pos: "\<not> fl_gt (fl_sum []) (Fin 0)"
  by (simp add: fl_sum_def fl_gt_def)

lemma where_sum_pos:
  assumes "fl_gt (where_sum a cond p) (Fin 0)"
  shows "\<exists>t<length a. cond t p"
proof (rule ccontr)
  assume "\<not> (\<exists>t<length a. cond t p)"
  then have "map (\<lambda>t. if cond t p then a ! t ! p else NaN) [0..<length a] = map (\<lambda>t. NaN) [0..<length a]"
    by (intro map_cong) auto
  then have "where_sum a cond p = fl_sum []"
    by (simp add: where_sum_def filter_empty_conv)
  with assms show False by (simp add: fl_sum_nil_not_pos)
qed

text \<open>
  Claim C3, as the code has it. \<^verbatim>\<open>severitymapping\<close> called without a method uses
  \<^verbatim>\<open>method='NBR'\<close>: every pixel it selects has a time step whose cosine distance
  exceeds its threshold and whose NBR is negative (the rule of Policy B). Called with
  \<^verbatim>\<open>method='NBRdist'\<close> it applies the rule of Policy C: every pixel it selects has a
  time step whose cosine distance and NBR distance exceed their thresholds and whose
  direction is \<open>1\<close>. Any other method raises \<^verbatim>\<open>ValueError\<close>. The rule of Policy C is
  the default of the per-pixel function \<^verbatim>\<open>severity\<close> (\<open>Method=3\<close>): its outliers are the
  valid observations whose cosine distance and NBR distance exceed their thresholds
  and whose direction is \<open>1\<close>.
\<close>

theorem default_policy:
  "severitymapping_outlierind None d out = severitymapping_outlierind (Some ''NBR'') d out
   \<and> (\<exists>ps. severitymapping_outlierind None d out = Inr ps
         \<and> (\<forall>p\<in>set ps. \<exists>t<length (dists_cosdist d).
               fl_gt (dists_cosdist d ! t ! p) (outlrs_CDistoutlier out ! p)
               \<and> fl_less (dists_NBR d ! t ! p) (Fin 0)))
   \<and> (\<exists>ps. severitymapping_outlierind (Some ''NBRdist'') d out = Inr ps
         \<and> (\<forall>p\<in>set ps. \<exists>t<length (dists_cosdist d).
               fl_gt (dists_cosdist d ! t ! p) (outlrs_CDistoutlier out ! p)
               \<and> fl_gt (dists_NBRDist d ! t ! p) (outlrs_NBRoutlier out ! p)
               \<and> dists_ChangeDir d ! t ! p = 1))
   \<and> (\<forall>m. m \<noteq> ''NBR'' \<and> m \<noteq> ''NBRdist'' \<longrightarrow> severitymapping_outlierind (Some m) d out = Inl ValueError)
   \<and> severity CDist CDistoutlier Time NBR NBRDist NBRoutlier Sign None
       = severity CDist CDistoutlier Time NBR NBRDist NBRoutlier Sign (Some 3)
   \<and> (\<forall>nbrdist sign. take_ind NBRDist nn = Inr nbrdist \<and> take_ind Sign nn = Inr sign \<longrightarrow>
         outlier_indices 3 cosdist nn CDistoutlier NBR NBRDist NBRoutlier Sign =
           Inr (Some (filter (\<lambda>j. fl_gt (cosdist ! j) CDistoutlier \<and> fl_gt (nbrdist ! j) NBRoutlier
                                \<and> sign ! j = 1) [0..<length cosdist])))"
proof (intro conjI allI impI)
  show "severitymapping_outlierind None d out = severitymapping_outlierind (Some ''NBR'') d out"
    by (simp add: severitymapping_outlierind_def)
next
  let ?cond = "\<lambda>t p. fl_gt (dists_cosdist d ! t ! p) (outlrs_CDistoutlier out ! p)
                         \<and> fl_less (dists_NBR d ! t ! p) (Fin 0)"
  let ?ps = "filter (\<lambda>p. fl_gt (where_sum (dists_cosdist d) ?cond p) (Fin 0))
               [0..<length (dists_x d) * length (dists_y d)]"
  have "severitymapping_outlierind None d out = Inr ?ps"
    by (simp add: severitymapping_outlierind_def Let_def)
  moreover have "\<forall>p\<in>set ?ps. \<exists>t<length (dists_cosdist d). ?cond t p"
    using where_sum_pos[of "dists_cosdist d" ?cond] by auto
  ultimately show "\<exists>ps. severitymapping_outlierind None d out = Inr ps
         \<and> (\<forall>p\<in>set ps. \<exists>t<length (dists_cosdist d).
               fl_gt (dists_cosdist d ! t ! p) (outlrs_CDistoutlier out ! p)
               \<and> fl_less (dists_NBR d ! t ! p) (Fin 0))"
    by blast
next
  let ?cond = "\<lambda>t p. fl_gt (dists_cosdist d ! t ! p) (outlrs_CDistoutlier out ! p)
                         \<and> fl_gt (dists_NBRDist d ! t ! p) (outlrs_NBRoutlier out ! p)
                         \<and> dists_ChangeDir d ! t ! p = 1"
  let ?ps = "filter (\<lambda>p. fl_gt (where_sum (dists_cosdist d) ?cond p) (Fin 0))
               [0..<length (dists_x d) * length (dists_y d)]"
  have "severitymapping_outlierind (Some ''NBRdist'') d out = Inr ?ps"
    by (simp add: severitymapping_outlierind_def Let_def)
  moreover have "\<forall>p\<in>set ?ps. \<exists>t<length (dists_cosdist d). ?cond t p"
    using where_sum_pos[of "dists_cosdist d" ?cond] by auto
  ultimately show "\<exists>ps. severitymapping_outlierind (Some ''NBRdist'') d out = Inr ps
         \<and> (\<forall>p\<in>set ps. \<exists>t<length (dists_cosdist d).
               fl_gt (dists_cosdist d ! t ! p) (outlrs_CDistoutlier out ! p)
               \<and> fl_gt (dists_NBRDist d ! t ! p) (outlrs_NBRoutlier out ! p)
               \<and> dists_ChangeDir d ! t ! p = 1)"
    by blast
next
  fix m :: string
  assume "m \<noteq> ''NBR'' \<and> m \<noteq> ''NBRdist''"
  then show "severitymapping_outlierind (Some m) d out = Inl ValueError"
    by (simp add: severitymapping_outlierind_def)
next
  show "severity CDist CDistoutlier Time NBR NBRDist NBRoutlier Sign None
       = severity CDist CDistoutlier Time NBR NBRDist NBRoutlier Sign (Some 3)"
    by (simp add: severity_def)
next
  fix nbrdist sign
  assume "take_ind NBRDist nn = Inr nbrdist \<and> take_ind Sign nn = Inr sign"
  then show "outlier_indices 3 cosdist nn CDistoutlier NBR NBRDist NBRoutlier Sign =
           Inr (Some (filter (\<lambda>j. fl_gt (cosdist ! j) CDistoutlier \<and> fl_gt (nbrdist ! j) NBRoutlier
                                \<and> sign ! j = 1) [0..<length cosdist]))"
    by (simp add: outlier_indices_def Let_def outlier3_def[abs_def])
qed

text \<open>
  Claim C3 as stated fails on \<open>scene1\<close>: its only time step is no outlier under
  Policy C (\<^verbatim>\<open>method='NBRdist'\<close> selects no pixel), and the default selects the pixel.
\<close>

theorem default_policy_counterexample:
  "severitymapping_outlierind None scene1 thresholds1 = Inr [0]
   \<and> severitymapping_outlierind (Some ''NBRdist'') scene1 thresholds1 = Inr []"
  by (simp add: severitymapping_outlierind_def scene1_def thresholds1_def where_sum_def fl_gt_def fl_sum_def)

lemma sel_scene1: "severitymapping_outlierind None scene1 thresholds1 = Inr [0]"
  by (simp add: severitymapping_outlierind_def scene1_def thresholds1_def where_sum_def fl_gt_def fl_sum_def)

lemma sel_scene3: "severitymapping_outlierind (Some ''NBRdist'') scene3 thresholds1 = Inr [0]"
  by (simp add: severitymapping_outlierind_def scene3_def thresholds1_def where_sum_def fl_gt_def fl_sum_def)

text \<open>
  The default selects the pixel of \<open>scene1\<close> on the rule of Policy B, and
  \<^verbatim>\<open>method='NBRdist'\<close> selects the pixel of \<open>scene3\<close> on the rule of Policy C.
\<close>

theorem default_policy_witness:
  "severitymapping_outlierind None scene1 thresholds1 = Inr [0]
   \<and> (\<exists>t<length (dists_cosdist scene1).
         fl_gt (dists_cosdist scene1 ! t ! 0) (outlrs_CDistoutlier thresholds1 ! 0)
         \<and> fl_less (dists_NBR scene1 ! t ! 0) (Fin 0))
   \<and> severitymapping_outlierind (Some ''NBRdist'') scene3 thresholds1 = Inr [0]
   \<and> (\<exists>t<length (dists_cosdist scene3).
         fl_gt (dists_cosdist scene3 ! t ! 0) (outlrs_CDistoutlier thresholds1 ! 0)
         \<and> fl_gt (dists_NBRDist scene3 ! t ! 0) (outlrs_NBRoutlier thresholds1 ! 0)
         \<and> dists_ChangeDir scene3 ! t ! 0 = 1)
   \<and> severitymapping_outlierind (Some ''cosdist'') scene1 thresholds1 = Inl ValueError
   \<and> outlier_indices 3 [Fin 1, Fin 0] [0, 1] (Fin 0.5) [] [Fin 1, Fin 1] (Fin 0.5) [1, 1] = Inr (Some [0])"
proof -
  note inst = default_policy[where d = scene1 and out = thresholds1 and NBRDist = "[Fin 1, Fin 1]"
      and nn = "[0, 1]" and Sign = "[1, 1]" and cosdist = "[Fin 1, Fin 0]" and CDistoutlier = "Fin 0.5"
      and NBR = "[]" and NBRoutlier = "Fin 0.5" and CDist = "[]" and Time = "[]"]
  note inst3 = default_policy[where d = scene3 and out = thresholds1 and NBRDist = "[]"
      and nn = "[]" and Sign = "[]" and cosdist = "[]" and CDistoutlier = "Fin 0"
      and NBR = "[]" and NBRoutlier = "Fin 0" and CDist = "[]" and Time = "[]"]
  have 1: "\<exists>t<length (dists_cosdist scene1).
         fl_gt (dists_cosdist scene1 ! t ! 0) (outlrs_CDistoutlier thresholds1 ! 0)
         \<and> fl_less (dists_NBR scene1 ! t ! 0) (Fin 0)"
    using inst[THEN conjunct2, THEN conjunct1] sel_scene1 by simp
  have 3: "\<exists>t<length (dists_cosdist scene3).
         fl_gt (dists_cosdist scene3 ! t ! 0) (outlrs_CDistoutlier thresholds1 ! 0)
         \<and> fl_gt (dists_NBRDist scene3 ! t ! 0) (outlrs_NBRoutlier thresholds1 ! 0)
         \<and> dists_ChangeDir scene3 ! t ! 0 = 1"
    using inst3[THEN conjunct2, THEN conjunct2, THEN conjunct1] sel_scene3 by simp
  have 4: "severitymapping_outlierind (Some ''cosdist'') scene1 thresholds1 = Inl ValueError"
    using inst[THEN conjunct2, THEN conjunct2, THEN conjunct2, THEN conjunct1, rule_format, of "''cosdist''"]
    by simp
  have t: "take_ind [Fin 1, Fin 1] [0, 1] = Inr [Fin 1, Fin 1] \<and> take_ind [1, 1::int] [0, 1] = Inr [1, 1]"
    by (simp add: take_ind_def)
  have "outlier_indices 3 [Fin 1, Fin 0] [0, 1] (Fin 0.5) [] [Fin 1, Fin 1] (Fin 0.5) [1, 1] =
      Inr (Some (filter (\<lambda>j. fl_gt ([Fin 1, Fin 0] ! j) (Fin 0.5) \<and> fl_gt ([Fin 1, Fin 1] ! j) (Fin 0.5)
                                \<and> [1, 1::int] ! j = 1) [0..<length [Fin 1, Fin 0]]))"
    using inst t by blast
  then have 5: "outlier_indices 3 [Fin 1, Fin 0] [0, 1] (Fin 0.5) [] [Fin 1, Fin 1] (Fin 0.5) [1, 1] = Inr (Some [0])"
    by (simp add: fl_gt_def upt_rec)
  from 1 3 4 5 sel_scene1 sel_scene3 show ?thesis by blast
qed

subsection \<open>The geometric median of a pixel\<close>

lemma pixel_obs_nth:
  "b < length X \<Longrightarrow> pixel_obs X ind i ! b = map (\<lambda>t. of_int16 (X ! b ! t ! i)) ind"
  by (simp add: pixel_obs_def)

lemma pixel_obs_length: "length (pixel_obs X ind i) = length X"
  by (simp add: pixel_obs_def)

lemma pixel_obs_fin: "fin_matrix (pixel_obs X ind i)"
  unfolding fin_matrix_def
proof (intro allI impI)
  fix b t
  assume b: "b < length (pixel_obs X ind i)" and t: "t < length (pixel_obs X ind i ! 0)"
  from b have bX: "b < length X" by (simp add: pixel_obs_length)
  then have "0 < length X" by auto
  with t have "t < length ind" by (simp add: pixel_obs_nth)
  with bX show "isfin (pixel_obs X ind i ! b ! t)"
    by (simp add: pixel_obs_nth of_int16_def)
qed

lemma geometric_median_fin:
  assumes tol: "0 \<le> tol" and X: "X \<noteq> []" and fin: "fin_matrix X"
    and rows: "\<forall>b<length X. length (X ! b) = length (X ! 0)" and N: "0 < length (X ! 0)"
  shows "\<exists>v. geometric_median X tol MaxInter = Some (Inr v) \<and> length v = length X \<and> list_all isfin v"
proof -
  have rowfin: "list_all isfin (X ! b) \<and> X ! b \<noteq> []" if "b < length X" for b
  proof -
    from that rows N have l: "length (X ! b) = length (X ! 0)" "0 < length (X ! b)" by auto
    have "isfin (X ! b ! t)" if "t < length (X ! b)" for t
      using fin \<open>b < length X\<close> that l by (simp add: fin_matrix_def)
    with l show ?thesis by (auto simp: list_all_length)
  qed
  have y0: "list_all isfin (map nanmean X)"
    unfolding list_all_length
  proof (intro allI impI)
    fix b assume "b < length (map nanmean X)"
    then have b: "b < length X" by simp
    from rowfin[OF b] have "isfin (nanmean (X ! b))" by (intro nanmean_fin) auto
    with b show "isfin (map nanmean X ! b)" by simp
  qed
  then have nonan: "\<not> list_ex isnan (map nanmean X)"
    by (auto simp: list_ex_iff list_all_iff isfin_iff)
  have inv: "gm_inv X (map nanmean X)" using y0 by (simp add: gm_inv_def)
  from gm_loop_terminates[OF tol, of X MaxInter "map nanmean X" "[Fin (10\<^sup>2)]" 0] fin N inv
  obtain v where "gm_loop X tol MaxInter (map nanmean X) [Fin (10\<^sup>2)] 0 = Some v" "gm_inv X v"
    by blast
  then show ?thesis
    using X nonan by (simp add: geometric_median_def Let_def gm_inv_def)
qed

lemma geometric_median_no_obs:
  assumes "X \<noteq> []" "\<forall>row\<in>set X. row = []"
  shows "geometric_median X tol MaxInter = Some (Inr (replicate (length X) NaN))"
proof -
  have m: "map nanmean X = replicate (length X) NaN"
  proof -
    have "map nanmean X = map (\<lambda>_. NaN) X"
      by (rule map_cong) (use assms(2) in \<open>auto simp: nanmean_empty\<close>)
    then show ?thesis by (simp add: map_replicate_const)
  qed
  have "list_ex isnan (map nanmean X)"
    unfolding m using assms(1) by (cases X) (simp_all add: list_ex_iff)
  then show ?thesis using assms(1) by (simp add: geometric_median_def Let_def m)
qed

text \<open>
  Claim C7, as the code has it. For a tolerance that is not negative and a cube with at
  least two bands, the worker's estimate for a pixel returns (the loop terminates and
  nothing is raised) a vector with one value per band: all values are finite when the
  pixel has a valid observation, and all are NaN when it has none. The estimator itself
  returns the all-NaN vector on a matrix without observations.
\<close>

theorem geomedian_returns:
  assumes tol: "0 \<le> epsilon" and bands: "2 \<le> length X"
  shows "(\<exists>v. dist_geomedian_pixel X epsilon max_iter i = Some (Inr v) \<and> length v = length X
           \<and> (if valid_ind X i = [] then list_all isnan v else list_all isfin v))
         \<and> geometric_median (replicate (length X) []) epsilon max_iter
             = Some (Inr (replicate (length X) NaN))"
proof
  show "geometric_median (replicate (length X) []) epsilon max_iter
             = Some (Inr (replicate (length X) NaN))"
  proof -
    have "X \<noteq> []" using bands by auto
    then show ?thesis
      using geometric_median_no_obs[of "replicate (length X) []" epsilon max_iter] by simp
  qed
next
  show "\<exists>v. dist_geomedian_pixel X epsilon max_iter i = Some (Inr v) \<and> length v = length X
           \<and> (if valid_ind X i = [] then list_all isnan v else list_all isfin v)"
  proof (cases "valid_ind X i = []")
  case True
  then show ?thesis using bands by (simp add: dist_geomedian_pixel_def list_all_iff)
next
  case False
  let ?X = "pixel_obs X (valid_ind X i) i"
  have len: "length ?X = length X" by (simp add: pixel_obs_def)
  have ne: "?X \<noteq> []" using bands len by auto
  have z: "0 < length X" using bands by auto
  have rows: "\<forall>b<length ?X. length (?X ! b) = length (?X ! 0)"
    using z by (simp add: pixel_obs_length pixel_obs_nth)
  have N: "0 < length (?X ! 0)" using z False by (simp add: pixel_obs_nth)
  from geometric_median_fin[OF tol ne pixel_obs_fin rows N, of max_iter]
  obtain v where "geometric_median ?X epsilon max_iter = Some (Inr v)" "length v = length ?X" "list_all isfin v"
    by blast
  then show ?thesis using False bands len by (simp add: dist_geomedian_pixel_def Let_def)
qed
qed

lemma len_X7: "length X7 = 6"
  by (simp add: X7_def)

lemma valid_X7: "valid_ind X7 0 = [0, Suc 0]" "valid_ind X7 (Suc 0) = []"
  by (simp_all add: valid_ind_def X7_def upt2)

lemma obs_X7:
  "pixel_obs X7 [0, Suc 0] 0
     = [[Fin 1, Fin 3], [Fin 5, Fin 5], [Fin 5, Fin 5], [Fin 5, Fin 5], [Fin 5, Fin 5], [Fin 5, Fin 5]]"
  by (simp add: pixel_obs_def X7_def of_int16_def)

lemma norm_X7:
  "EucNorm [[Fin 1, Fin 3], [Fin 5, Fin 5], [Fin 5, Fin 5], [Fin 5, Fin 5], [Fin 5, Fin 5], [Fin 5, Fin 5]]
     [Fin 2, Fin 5, Fin 5, Fin 5, Fin 5, Fin 5] 0 = Fin 1"
  "EucNorm [[Fin 1, Fin 3], [Fin 5, Fin 5], [Fin 5, Fin 5], [Fin 5, Fin 5], [Fin 5, Fin 5], [Fin 5, Fin 5]]
     [Fin 2, Fin 5, Fin 5, Fin 5, Fin 5, Fin 5] (Suc 0) = Fin 1"
  by (simp_all add: EucNorm_def upt6 fl_sum_def fl_sq_def fl_sub_def)

lemma y1_X7:
  "gm_y1 [[Fin 1, Fin 3], [Fin 5, Fin 5], [Fin 5, Fin 5], [Fin 5, Fin 5], [Fin 5, Fin 5], [Fin 5, Fin 5]]
     [Fin 2, Fin 5, Fin 5, Fin 5, Fin 5, Fin 5] = [Fin 2, Fin 5, Fin 5, Fin 5, Fin 5, Fin 5]"
  by (simp add: gm_y1_def NotNaN_def norm_X7 upt6 upt2 fl_sum_def)

lemma gm_X7:
  "dist_geomedian_pixel X7 (1/2) 40 0 = Some (Inr [Fin 2, Fin 5, Fin 5, Fin 5, Fin 5, Fin 5])"
proof -
  let ?X = "[[Fin 1, Fin 3], [Fin 5, Fin 5], [Fin 5, Fin 5], [Fin 5, Fin 5], [Fin 5, Fin 5], [Fin 5, Fin 5]]"
  let ?y = "[Fin 2, Fin 5, Fin 5, Fin 5, Fin 5, Fin 5]"
  have c: "fl_gt (fl_sqrt (fl_sum (map fl_sq [Fin (10\<^sup>2)]))) (Fin (1/2)) \<and> (0::int) < 40"
    using gm_first_pass[of "1/2"] by simp
  have n: "\<not> list_ex isnan (gm_y1 ?X ?y)" by (simp add: y1_X7)
  have e: "\<not> (fl_gt (fl_sqrt (fl_sum (map fl_sq (map2 fl_sub ?y ?y)))) (Fin (1/2)) \<and> (0 + 1 < (40::int)))"
    by (simp add: fl_gt_def fl_sum_def fl_sq_def fl_sub_def)
  have "gm_loop ?X (1/2) 40 ?y [Fin (10\<^sup>2)] 0 = gm_loop ?X (1/2) 40 ?y (map2 fl_sub ?y ?y) (0 + 1)"
    using gm_loop_next[OF c n] by (simp only: y1_X7)
  also have "\<dots> = Some ?y" by (rule gm_loop_exit[OF e])
  finally have "gm_loop ?X (1/2) 40 ?y [Fin (10\<^sup>2)] 0 = Some ?y" .
  then show ?thesis
    using len_X7 by (simp add: dist_geomedian_pixel_def valid_X7 obs_X7 geometric_median_def Let_def
          nanmean_def fl_sum_def)
qed

text \<open>
  The first pixel of \<open>X7\<close> has two valid observations: the loop starts at their mean,
  makes one update, which does not move the estimate, and stops on the tolerance. The
  second pixel has none.
\<close>

theorem geomedian_returns_witness:
  "(0::real) \<le> 1/2 \<and> 2 \<le> length X7 \<and> valid_ind X7 0 = [0, 1] \<and> valid_ind X7 1 = []
   \<and> (\<exists>v. dist_geomedian_pixel X7 (1/2) 40 0 = Some (Inr v) \<and> length v = 6 \<and> list_all isfin v)
   \<and> dist_geomedian_pixel X7 (1/2) 40 0 = Some (Inr [Fin 2, Fin 5, Fin 5, Fin 5, Fin 5, Fin 5])
   \<and> (\<exists>v. dist_geomedian_pixel X7 (1/2) 40 1 = Some (Inr v) \<and> length v = 6 \<and> list_all isnan v)
   \<and> geometric_median (replicate 6 []) (1/2) 40 = Some (Inr (replicate 6 NaN))"
proof -
  have b: "2 \<le> length X7" by (simp add: len_X7)
  have e: "(0::real) \<le> 1/2" by simp
  note inst = geomedian_returns[OF e b, of 40]
  have 0: "\<exists>v. dist_geomedian_pixel X7 (1/2) 40 0 = Some (Inr v) \<and> length v = 6 \<and> list_all isfin v"
    using inst[of 0, THEN conjunct1] by (simp add: valid_X7 len_X7)
  have 1: "\<exists>v. dist_geomedian_pixel X7 (1/2) 40 1 = Some (Inr v) \<and> length v = 6 \<and> list_all isnan v"
    using inst[of 1, THEN conjunct1] by (simp add: valid_X7 len_X7)
  have 2: "geometric_median (replicate 6 []) (1/2) 40 = Some (Inr (replicate 6 NaN))"
    using inst[of 0, THEN conjunct2] by (simp add: len_X7)
  from 0 1 2 b e gm_X7 valid_X7 show ?thesis by simp
qed

lemma valid_X2: "valid_ind X2 0 = [0]" "valid_ind X2' 0 = [0]"
  by (simp_all add: valid_ind_def X2_def X2'_def)

lemma obs_X2: "pixel_obs X2 [0] 0 = [[Fin 3], [Fin 4], [Fin 5], [Fin 6], [Fin 7], [Fin 2]]"
  by (simp add: pixel_obs_def X2_def of_int16_def)

lemma nanmean_single: "nanmean [Fin a] = Fin a"
  by (simp add: nanmean_def fl_sum_def)

lemma y1_X2:
  "list_ex isnan (gm_y1 [[Fin 3], [Fin 4], [Fin 5], [Fin 6], [Fin 7], [Fin 2]] gmed2)"
  by (simp add: gm_y1_def NotNaN_def EucNorm_def gmed2_def upt6 fl_sum_def fl_sq_def fl_sub_def)

text \<open>
  Claim C7 as stated fails for a negative tolerance. The pixel of \<open>X2\<close> has one valid
  observation: the first update divides by a distance of \<open>0\<close> and contains NaN, and the
  loop never exits.
\<close>

theorem geomedian_negative_tolerance:
  "valid_ind X2 0 = [0] \<and> dist_geomedian_pixel X2 (- 1) 40 0 = None"
proof -
  have l: "\<not> length X2 < 2" by (simp add: X2_def)
  have "gm_loop [[Fin 3], [Fin 4], [Fin 5], [Fin 6], [Fin 7], [Fin 2]] (- 1) 40 gmed2 [Fin (10\<^sup>2)] 0
          = None"
    by (rule gm_loop_diverges) (simp_all add: y1_X2)
  then show ?thesis
    using l by (simp add: dist_geomedian_pixel_def valid_X2 obs_X2 geometric_median_def nanmean_single
        gmed2_def Let_def)
qed

subsection \<open>The cosine distance\<close>


text \<open>
  The squares of the observations wrap around in \<^verbatim>\<open>int16\<close>: \<open>182\<^sup>2 = 33124\<close> is read
  as \<open>-32412\<close>, the sum of the squares is negative and its square root is NaN.
\<close>

lemma cosdistance_int16_wraps:
  "cosdistance [Fin 182, Fin 182] [[182], [182]] = Inr [NaN]"
proof -
  have w: "sint ((182::int16) * 182) = - 32412" by simp
  show ?thesis
    by (simp add: cosdistance_def broadcast_mul_def of_int16_def Let_def fl_sum_def fl_sq_def fl_sub_def w)
qed

subsection \<open>The time steps the workers use\<close>

lemma valid_ind_set: "set (valid_ind X i) = {t. t < length (X ! 1) \<and> 0 < sint (X ! 1 ! t ! i)}"
  by (auto simp: valid_ind_def)


lemma pixel_obs_cong:
  assumes "length X' = length X" "\<forall>b<length X. \<forall>t\<in>set ind. X' ! b ! t ! i = X ! b ! t ! i"
  shows "pixel_obs X' ind i = pixel_obs X ind i"
proof (rule nth_equalityI)
  show "length (pixel_obs X' ind i) = length (pixel_obs X ind i)"
    using assms(1) by (simp add: pixel_obs_length)
next
  fix b assume "b < length (pixel_obs X' ind i)"
  then have b: "b < length X" "b < length X'" using assms(1) by (simp_all add: pixel_obs_length)
  then show "pixel_obs X' ind i ! b = pixel_obs X ind i ! b"
    using assms(2) by (simp add: pixel_obs_nth)
qed

lemma dist_geomedian_pixel_cong:
  assumes "length X' = length X" "valid_ind X' i = valid_ind X i"
    "\<forall>b<length X. \<forall>t\<in>set (valid_ind X i). X' ! b ! t ! i = X ! b ! t ! i"
  shows "dist_geomedian_pixel X' epsilon max_iter i = dist_geomedian_pixel X epsilon max_iter i"
  using pixel_obs_cong[OF assms(1,3)] assms(1,2) by (simp add: dist_geomedian_pixel_def Let_def)

lemma assign_notin:
  assumes "assign a ind v = Inr r" "t \<notin> set ind"
  shows "r ! t = a ! t"
  using assms by (auto simp: assign_def scatter_nth_notin split: if_splits)

lemma dist_distance_invalid:
  assumes r: "dist_distance_pixel cos_distance X gmed i = Inr (cos_dist, nbr_dist, direction)"
    and t: "t < length (X ! 1)" and inv: "sint (X ! 1 ! t ! i) \<le> 0"
  shows "cos_dist ! t = NaN \<and> nbr_dist ! t = NaN \<and> direction ! t = 0"
proof -
  have notin: "t \<notin> set (valid_ind X i)" using inv by (simp add: valid_ind_set)
  show ?thesis
  proof (cases "0 < length (valid_ind X i)")
    case False
    with r t show ?thesis
      by (auto simp: dist_distance_pixel_def Let_def split: if_splits)
  next
    case True
    let ?ind = "valid_ind X i" and ?T = "length (X ! 1)"
    from r True obtain cd where
      a: "assign (replicate ?T NaN) ?ind cd = Inr cos_dist"
      by (auto simp: dist_distance_pixel_def Let_def split: if_splits sum.splits)
    let ?nbr = "map (\<lambda>t. fl_div (of_int16 (X ! 3 ! t ! i - X ! 5 ! t ! i))
                                          (of_int16 (X ! 3 ! t ! i + X ! 5 ! t ! i))) [0..<?T]"
    let ?r = "nbr_eucdistance (fl_div (fl_sub (gmed ! 3) (gmed ! 5)) (fl_add (gmed ! 3) (gmed ! 5)))
                (map (\<lambda>t. ?nbr ! t) ?ind)"
    from r True have
      n: "nbr_dist = scatter (replicate ?T NaN) ?ind (fst ?r)"
      and d: "direction = scatter (replicate ?T 0) ?ind (snd ?r)"
      by (auto simp: dist_distance_pixel_def Let_def split: if_splits sum.splits)
    have l: "length ?ind = length (fst ?r)" "length ?ind = length (snd ?r)"
      by (simp_all add: nbr_eucdistance_def)
    have "cos_dist ! t = NaN" using assign_notin[OF a notin] t by simp
    moreover have "nbr_dist ! t = NaN"
      unfolding n using scatter_nth_notin[OF l(1) notin] t by simp
    moreover have "direction ! t = 0"
      unfolding d using scatter_nth_notin[OF l(2) notin] t by simp
    ultimately show ?thesis by simp
  qed
qed

lemma distances_nbr_invalid: "sint nir \<le> 0 \<or> sint swir2 \<le> 0 \<Longrightarrow> distances_nbr nir swir2 = NaN"
  by (cases "sint nir \<le> 0"; cases "sint swir2 \<le> 0") (auto simp: distances_nbr_def fl_sub_def of_int16_def)

text \<open>
  Claim C4, as the code has it. The workers use exactly the time steps whose band 1
  is positive. The estimate of the geometric median does not depend on the values at
  the other time steps; there the cosine distance and the NBR distance stay NaN and
  the direction stays \<open>0\<close>. The NBR grid of \<^verbatim>\<open>distances\<close> is NaN where \<open>nir\<close> or
  \<open>swir2\<close> is not positive.
\<close>

theorem valid_steps_green_band:
  "set (valid_ind X i) = {t. t < length (X ! 1) \<and> 0 < sint (X ! 1 ! t ! i)}
   \<and> (\<forall>X'. length X' = length X \<and> valid_ind X' i = valid_ind X i
          \<and> (\<forall>b<length X. \<forall>t\<in>set (valid_ind X i). X' ! b ! t ! i = X ! b ! t ! i)
        \<longrightarrow> dist_geomedian_pixel X' epsilon max_iter i = dist_geomedian_pixel X epsilon max_iter i)
   \<and> (\<forall>cos_dist nbr_dist direction t.
          dist_distance_pixel cos_distance X gmed i = Inr (cos_dist, nbr_dist, direction)
          \<and> t < length (X ! 1) \<and> sint (X ! 1 ! t ! i) \<le> 0
        \<longrightarrow> cos_dist ! t = NaN \<and> nbr_dist ! t = NaN \<and> direction ! t = 0)
   \<and> (\<forall>nir swir2. sint nir \<le> 0 \<or> sint swir2 \<le> 0 \<longrightarrow> distances_nbr nir swir2 = NaN)"
  using valid_ind_set[of X i] dist_geomedian_pixel_cong[of _ X i] dist_distance_invalid[of cos_distance X gmed i]
    distances_nbr_invalid
  by (intro conjI allI impI) blast+

lemma dd_X2: "\<exists>cd nd dir. dist_distance_pixel cos_distance_toolbox X2 gmed2 0 = Inr (cd, nd, dir)"
  apply (simp add: dist_distance_pixel_def valid_X2 Let_def)
  apply (simp add: X2_def gmed2_def cos_distance_toolbox_def cosdistance_def broadcast_mul_def of_int16_def Let_def upt2
      assign_def scatter_def)
  done

lemma X2_agree: "\<forall>b<length X2. \<forall>t\<in>set (valid_ind X2 0). X2' ! b ! t ! 0 = X2 ! b ! t ! 0"
proof -
  have "X2' ! b ! 0 ! 0 = X2 ! b ! 0 ! 0" if "b < 6" for b
  proof -
    from that have "b = 0 \<or> b = 1 \<or> b = 2 \<or> b = 3 \<or> b = 4 \<or> b = 5" by arith
    then show ?thesis by (auto simp: X2_def X2'_def)
  qed
  moreover have "length X2 = 6" by (simp add: X2_def)
  ultimately show ?thesis by (simp add: valid_X2)
qed

theorem valid_steps_green_band_witness:
  "set (valid_ind X2 0) = {0}
   \<and> dist_geomedian_pixel X2' (1/2) 40 0 = dist_geomedian_pixel X2 (1/2) 40 0
   \<and> (\<exists>cd nd dir. dist_distance_pixel cos_distance_toolbox X2 gmed2 0 = Inr (cd, nd, dir)
         \<and> cd ! 1 = NaN \<and> nd ! 1 = NaN \<and> dir ! 1 = 0)
   \<and> distances_nbr 0 5 = NaN"
proof -
  note inst = valid_steps_green_band[of X2 0 "1/2" 40 cos_distance_toolbox gmed2]
  have len: "length X2' = length X2" by (simp add: X2_def X2'_def)
  have v: "valid_ind X2' 0 = valid_ind X2 0" by (simp add: valid_X2)
  have T: "(1::nat) < length (X2 ! 1)" and z: "sint (X2 ! 1 ! 1 ! 0) \<le> 0"
    by (simp_all add: X2_def)
  from dd_X2 obtain cd nd dir where
    dd: "dist_distance_pixel cos_distance_toolbox X2 gmed2 0 = Inr (cd, nd, dir)" by blast
  have 1: "set (valid_ind X2 0) = {0}" by (simp add: valid_X2)
  have 2: "dist_geomedian_pixel X2' (1/2) 40 0 = dist_geomedian_pixel X2 (1/2) 40 0"
    using inst len v X2_agree by blast
  have 3: "cd ! 1 = NaN \<and> nd ! 1 = NaN \<and> dir ! 1 = 0"
    using inst dd T z by blast
  have 4: "distances_nbr 0 5 = NaN"
    using inst by simp
  from 1 2 3 4 dd show ?thesis by blast
qed

lemma len_X1: "length X1 = 6"
  by (simp add: X1_def)

lemma valid_X1: "valid_ind X1 0 = [0]"
  by (simp add: valid_ind_def X1_def)

lemma obs_X1: "pixel_obs X1 [0] 0 = [[Fin 5], [Fin 5], [Fin 5], [Fin 0], [Fin 5], [Fin 5]]"
  by (simp add: pixel_obs_def X1_def of_int16_def)

lemma norm_X1: "EucNorm [[Fin 5], [Fin 5], [Fin 5], [Fin 0], [Fin 5], [Fin 5]] gmed1 0 = Fin 0"
  by (simp add: EucNorm_def gmed1_def upt6 fl_sum_def fl_sq_def fl_sub_def)

lemma y1_X1: "list_ex isnan (gm_y1 [[Fin 5], [Fin 5], [Fin 5], [Fin 0], [Fin 5], [Fin 5]] gmed1)"
  by (simp add: gm_y1_def NotNaN_def norm_X1 upt6 fl_sum_def)

lemma gm_X1: "dist_geomedian_pixel X1 (1/2) 40 0 = Some (Inr gmed1)"
proof -
  have c: "fl_gt (fl_sqrt (fl_sum (map fl_sq [Fin (10\<^sup>2)]))) (Fin (1/2)) \<and> (0::int) < 40"
    using gm_first_pass[of "1/2"] by simp
  have "gm_loop [[Fin 5], [Fin 5], [Fin 5], [Fin 0], [Fin 5], [Fin 5]] (1/2) 40 gmed1 [Fin (10\<^sup>2)] 0
     = Some gmed1"
    using gm_loop_nan[OF c y1_X1] gm_loop_stop[of "1/2"] by simp
  then show ?thesis
    using len_X1 by (simp add: dist_geomedian_pixel_def valid_X1 obs_X1 geometric_median_def Let_def
          nanmean_def fl_sum_def gmed1_def)
qed

lemma dd_X1: "dist_distance_pixel cos_distance_toolbox X1 gmed1 0 = Inr ([Fin 0], [Fin 0], [0])"
proof -
  have s: "sqrt 125 * sqrt 125 = (125::real)" by simp
  have c: "cos_distance_toolbox gmed1 [[5], [5], [5], [0], [5], [5]] = Inr [Fin 0]"
    by (simp add: cos_distance_toolbox_def cosdistance_def broadcast_mul_def of_int16_def gmed1_def Let_def
        fl_sum_def fl_sq_def fl_sub_def s)
  have x: "map (\<lambda>band. [band ! 0 ! 0]) X1 = [[5], [5], [5], [0], [5], [5]]"
    by (simp add: X1_def)
  have T: "length (X1 ! Suc 0) = 1" by (simp add: X1_def)
  have g: "gmed1 ! 3 = Fin 0" "gmed1 ! 5 = Fin 5" "length gmed1 = 6" by (simp_all add: gmed1_def)
  have v: "X1 ! 3 ! 0 ! 0 = 0" "X1 ! 5 ! 0 ! 0 = 5" by (simp_all add: X1_def)
  show ?thesis
    by (simp add: dist_distance_pixel_def valid_X1 len_X1 Let_def x c T g v assign_def scatter_def
        nbr_eucdistance_def of_int16_def fl_sub_def fl_sq_def)
qed

text \<open>
  Claim C4 as stated fails on \<open>X1\<close>: the \<open>nir\<close> value of its only time step is \<open>0\<close>,
  and the time step is used with that value. The geometric median is the observation
  itself, with \<open>0\<close> for \<open>nir\<close>, and both distances are \<open>0\<close> there, not NaN.
\<close>

theorem green_band_only_counterexample:
  "sint (X1 ! 3 ! 0 ! 0) \<le> 0
   \<and> dist_geomedian_pixel X1 (1/2) 40 0 = Some (Inr [Fin 5, Fin 5, Fin 5, Fin 0, Fin 5, Fin 5])
   \<and> dist_distance_pixel cos_distance_toolbox X1 [Fin 5, Fin 5, Fin 5, Fin 0, Fin 5, Fin 5] 0
       = Inr ([Fin 0], [Fin 0], [0])"
  using gm_X1 dd_X1 by (simp add: X1_def gmed1_def)

subsection \<open>The change direction\<close>











subsection \<open>Outlier thresholds\<close>

lemma map2_replicate: "map2 f (replicate n a) (replicate n b) = replicate n (f a b)"
  by (simp add: zip_replicate)

lemma tukey_nanpercentile: "tukey (nanpercentile a [25, 75]) = replicate (grid_size a) (fence a)"
  by (simp add: tukey_def nanpercentile_def map2_replicate fence_def grid_size_def Let_def)

lemma percentile_const:
  assumes ne: "vs \<noteq> []" and c: "\<forall>v\<in>set vs. v = c" and q: "0 \<le> q" "q \<le> 100"
  shows "percentile vs q = Fin c"
proof -
  let ?s = "sort vs"
  let ?h = "(real (length ?s) - 1) * q / 100"
  have n: "0 < length ?s" using ne by simp
  have all: "?s ! k = c" if "k < length ?s" for k
  proof -
    from that have "?s ! k \<in> set ?s" by (rule nth_mem)
    with c show ?thesis by simp
  qed
  have n1: "0 \<le> real (length ?s) - 1" using n by (simp add: Suc_leI)
  have h0: "0 \<le> ?h" using n1 q by simp
  have "?h \<le> (real (length ?s) - 1) * 100 / 100"
    using n1 q by (intro divide_right_mono mult_left_mono) auto
  then have h1: "?h \<le> real (length ?s - 1)" using n by (simp add: of_nat_diff)
  have fl: "\<lfloor>?h\<rfloor> \<le> int (length ?s - 1)" using h1 by (simp add: floor_le_iff)
  have "int (length ?s - 1) < int (length ?s)" using n by simp
  with fl have "\<lfloor>?h\<rfloor> < int (length ?s)" by linarith
  moreover have "0 \<le> \<lfloor>?h\<rfloor>" using h0 by simp
  ultimately have lo: "nat \<lfloor>?h\<rfloor> < length ?s" by (simp only: nat_less_iff)
  have "length ?s - 1 < length ?s" using n by arith
  then have hi: "min (nat \<lfloor>?h\<rfloor> + 1) (length ?s - 1) < length ?s"
    by (rule min.strict_coboundedI2)
  show ?thesis
    using ne all[OF lo] all[OF hi] by (simp add: percentile_def Let_def)
qed

lemma fence_const:
  assumes "valid_samples a \<noteq> []" "\<forall>v\<in>set (valid_samples a). v = c"
  shows "fence a = Fin c"
  using percentile_const[OF assms, of 25] percentile_const[OF assms, of 75]
  by (simp add: fence_def fl_sub_def)

text \<open>
  Claim C6. Both thresholds of \<^verbatim>\<open>outliers\<close> are the Tukey fence
  \<open>Q3 + 1.5 \<times> (Q3 - Q1)\<close> of the valid samples of their distance, at every pixel of
  the grid; when all valid samples of a distance are equal to \<open>c\<close>, and there is one,
  its threshold is \<open>c\<close>.
\<close>

theorem tukey_fence:
  "outlrs_NBRoutlier (outliers d) = replicate (grid_size (dists_NBRDist d)) (fence (dists_NBRDist d))
   \<and> outlrs_CDistoutlier (outliers d) = replicate (grid_size (dists_cosdist d)) (fence (dists_cosdist d))
   \<and> (valid_samples (dists_NBRDist d) \<noteq> [] \<and> (\<forall>v\<in>set (valid_samples (dists_NBRDist d)). v = c)
         \<longrightarrow> outlrs_NBRoutlier (outliers d) = replicate (grid_size (dists_NBRDist d)) (Fin c))
   \<and> (valid_samples (dists_cosdist d) \<noteq> [] \<and> (\<forall>v\<in>set (valid_samples (dists_cosdist d)). v = c')
         \<longrightarrow> outlrs_CDistoutlier (outliers d) = replicate (grid_size (dists_cosdist d)) (Fin c'))"
  using fence_const by (auto simp: outliers_def Let_def tukey_nanpercentile)

text \<open>The distances of \<open>scene2\<close>: three valid samples each, all equal.\<close>

theorem tukey_fence_witness:
  "valid_samples (dists_NBRDist scene2) = [0.3, 0.3, 0.3]
   \<and> valid_samples (dists_cosdist scene2) = [0.1, 0.1, 0.1]
   \<and> outlrs_NBRoutlier (outliers scene2) = [Fin 0.3, Fin 0.3]
   \<and> outlrs_CDistoutlier (outliers scene2) = [Fin 0.1, Fin 0.1]"
proof -
  have n: "valid_samples (dists_NBRDist scene2) = [0.3, 0.3, 0.3]"
    and c: "valid_samples (dists_cosdist scene2) = [0.1, 0.1, 0.1]"
    by (simp_all add: valid_samples_def scene2_def)
  have g: "grid_size (dists_NBRDist scene2) = 2" "grid_size (dists_cosdist scene2) = 2"
    by (simp_all add: grid_size_def scene2_def)
  note inst = tukey_fence[of scene2 "0.3" "0.1"]
  have hn: "valid_samples (dists_NBRDist scene2) \<noteq> []
      \<and> (\<forall>v\<in>set (valid_samples (dists_NBRDist scene2)). v = 0.3)"
    by (simp add: n)
  have hc: "valid_samples (dists_cosdist scene2) \<noteq> []
      \<and> (\<forall>v\<in>set (valid_samples (dists_cosdist scene2)). v = 0.1)"
    by (simp add: c)
  have "outlrs_NBRoutlier (outliers scene2) = replicate (grid_size (dists_NBRDist scene2)) (Fin 0.3)"
    by (rule inst[THEN conjunct2, THEN conjunct2, THEN conjunct1, THEN mp, OF hn])
  moreover have "outlrs_CDistoutlier (outliers scene2) = replicate (grid_size (dists_cosdist scene2)) (Fin 0.1)"
    by (rule inst[THEN conjunct2, THEN conjunct2, THEN conjunct2, THEN mp, OF hc])
  ultimately show ?thesis using n c g by (simp add: numeral_2_eq_2)
qed

subsection \<open>Region growing\<close>

text \<open>
  Claim C8 asks for an empty burn extent when no pixel has a start date. On a severity
  result whose start dates are all NaN, \<^verbatim>\<open>np.max(sumpix)\<close> is taken of an empty array
  and \<^verbatim>\<open>region_growing\<close> raises \<^verbatim>\<open>ValueError\<close>.
\<close>

theorem region_growing_no_dates:
  "region_growing label d out (sev\<lparr>StartDate := replicate n None\<rparr>) = Inl ValueError"
proof -
  have "concat (map (\<lambda>v. case v of None \<Rightarrow> [] | Some t \<Rightarrow> [t]) (replicate n (None :: int option))) = []"
    by simp
  then show ?thesis by (simp add: region_growing_def)
qed

lemma first_after_Inl_iff:
  "first_after time dte = Inl IndexError \<longleftrightarrow> (\<forall>t\<in>set time. t \<le> day_start dte)"
proof -
  have "filter (\<lambda>t. day_start dte < time ! t) [0..<length time] = [] \<longleftrightarrow> (\<forall>t\<in>set time. t \<le> day_start dte)"
    by (auto simp: filter_empty_conv all_set_conv_all_nth not_less)
  then show ?thesis by (auto simp: first_after_def split: list.splits)
qed

lemma first_after_Inr:
  assumes "first_after time dte = Inr ti"
  shows "ti < length time \<and> day_start dte < time ! ti \<and> (\<forall>j<ti. time ! j \<le> day_start dte)"
proof -
  from assms obtain rest where f: "filter (\<lambda>t. day_start dte < time ! t) [0..<length time] = ti # rest"
    by (auto simp: first_after_def split: list.splits)
  then have "ti \<in> set (filter (\<lambda>t. day_start dte < time ! t) [0..<length time])" by simp
  then have a: "ti < length time" "day_start dte < time ! ti" by auto
  have "time ! j \<le> day_start dte" if "j < ti" for j
  proof (rule ccontr)
    assume "\<not> time ! j \<le> day_start dte"
    with that a have "j \<in> set (filter (\<lambda>t. day_start dte < time ! t) [0..<length time])" by auto
    with f have "j = ti \<or> j \<in> set rest" by simp
    moreover have "sorted (ti # rest)"
      unfolding f[symmetric] by (rule sorted_wrt_filter) simp
    ultimately show False using that by auto
  qed
  with a show ?thesis by blast
qed

lemma growing_loop_fails:
  assumes "dte \<in> set dates" "first_after (dists_time d) dte = Inl IndexError"
  shows "isl (growing_loop label d out SeedMap ref_date st dates)"
  using assms
proof (induction dates arbitrary: st)
  case Nil
  then show ?case by simp
next
  case (Cons a dates)
  show ?case
  proof (cases "growing_step label d out SeedMap ref_date st a")
    case (Inl e)
    then show ?thesis by simp
  next
    case (Inr st')
    have "a \<noteq> dte"
    proof
      assume "a = dte"
      with Cons.prems(2) have "isl (growing_step label d out SeedMap ref_date st a)"
        by (simp add: growing_step_def split: prod.splits)
      with Inr show False by simp
    qed
    with Cons.prems have "dte \<in> set dates" by simp
    from Cons.IH[OF this Cons.prems(2)] Inr show ?thesis by simp
  qed
qed

lemma growing_from_fails:
  assumes "dte \<in> set ChangeDates" "first_after (dists_time d) dte = Inl IndexError"
  shows "isl (growing_from label d out sev ChangeDates ref_date)"
proof (cases "first_after (dists_time d) ref_date")
  case (Inl e)
  then show ?thesis by (simp add: growing_from_def)
next
  case ti: (Inr ti)
  let ?SeedMap = "map (\<lambda>v. if 0 < v then 1 else (0::int)) (Severe sev)"
  let ?labels = "label (Potential d out ti)"
  show ?thesis
  proof (cases "NewPotential ?labels ?SeedMap (map (\<lambda>_. Fin 0) ?labels)")
    case (Inl e)
    then show ?thesis by (simp add: growing_from_def ti Let_def)
  next
    case np: (Inr np)
    let ?st = "(map (\<lambda>_. 0::int) ?labels,
                map (\<lambda>v. if fl_gt v (Fin 0) then Fin (real_of_int ref_date) else Fin 0) np,
                map (\<lambda>v. if fl_gt v (Fin 0) then 1 else (0::int)) np)"
    from growing_loop_fails[OF assms, of label out ?SeedMap ref_date ?st]
    obtain e where "growing_loop label d out ?SeedMap ref_date ?st ChangeDates = Inl e"
      by (auto simp: isl_def)
    then show ?thesis by (simp add: growing_from_def ti np Let_def)
  qed
qed

lemma region_growing_fails:
  assumes s: "Some dte \<in> set (StartDate sev)" and late: "\<forall>t\<in>set (dists_time d). t \<le> day_start dte"
  shows "isl (region_growing label d out sev)"
proof -
  let ?SD = "concat (map (\<lambda>v. case v of None \<Rightarrow> [] | Some t \<Rightarrow> [t]) (StartDate sev))"
  let ?CD = "sort (remdups ?SD)"
  have "dte \<in> set ?SD" using s by (force split: option.splits)
  then have mem: "dte \<in> set ?CD" by simp
  have fail: "first_after (dists_time d) dte = Inl IndexError"
    using late by (simp add: first_after_Inl_iff)
  have "isl (growing_from label d out sev ?CD ref_date)" for ref_date
    by (rule growing_from_fails[OF mem fail])
  then show ?thesis
    unfolding region_growing_def Let_def by (simp split: list.splits)
qed

text \<open>
  Claim C10, as the code has it. The lookup for a change date compares the observation
  times with the start of the date's calendar day: it raises exactly when no
  observation is later than the start of that day, and otherwise gives the index of
  the first observation later than the start of that day. When some pixel's start date
  has no observation later than the start of its day, \<^verbatim>\<open>region_growing\<close> fails.
\<close>

theorem change_date_lookup:
  "(first_after time dte = Inl IndexError \<longleftrightarrow> (\<forall>t\<in>set time. t \<le> day_start dte))
   \<and> (\<forall>ti. first_after time dte = Inr ti \<longrightarrow>
          ti < length time \<and> day_start dte < time ! ti \<and> (\<forall>j<ti. time ! j \<le> day_start dte))
   \<and> (Some dte \<in> set (StartDate sev) \<and> (\<forall>t\<in>set (dists_time d). t \<le> day_start dte)
        \<longrightarrow> isl (region_growing label d out sev))"
  using first_after_Inl_iff[of time dte] first_after_Inr[of time dte] region_growing_fails[of dte sev d label out]
  by blast

text \<open>
  Claim C10 as stated fails for a change date that is the last observation, at 01:00 of
  its day: the date is not strictly earlier than the last observation, and the lookup
  finds that observation.
\<close>

theorem change_date_lookup_counterexample:
  "\<not> (90000000000000 < last [3600000000000, 90000000000000 :: int])
   \<and> first_after [3600000000000, 90000000000000] 90000000000000 = Inr 1"
  by (simp add: first_after_def day_start_def ns_per_day_def upt_rec)

text \<open>
  In \<open>scene2\<close> both observations are at midnight. The lookup for the first finds the
  second, the lookup for the second finds nothing, and region growing fails on the
  severity result \<open>severity2\<close>, whose only start date is the second observation.
\<close>

theorem change_date_lookup_witness:
  "first_after (dists_time scene2) 86400000000000 = Inl IndexError
   \<and> first_after (dists_time scene2) 0 = Inr 1
   \<and> isl (region_growing (\<lambda>m. m) scene2 thresholds2 severity2)"
proof -
  have ds: "day_start 86400000000000 = 86400000000000" "day_start 0 = 0"
    by (simp_all add: day_start_def ns_per_day_def)
  have late: "\<forall>t\<in>set (dists_time scene2). t \<le> day_start 86400000000000"
    by (simp add: ds scene2_def)
  have mem: "Some 86400000000000 \<in> set (StartDate severity2)" by (simp add: severity2_def)
  note inst1 = change_date_lookup[of "dists_time scene2" 86400000000000 severity2 scene2 "\<lambda>m. m" thresholds2]
  note inst2 = change_date_lookup[of "dists_time scene2" 0 severity2 scene2 "\<lambda>m. m" thresholds2]
  have 1: "first_after (dists_time scene2) 86400000000000 = Inl IndexError"
    using inst1 late by blast
  have 3: "isl (region_growing (\<lambda>m. m) scene2 thresholds2 severity2)"
    using inst1 late mem by blast
  have "first_after (dists_time scene2) 0 \<noteq> Inl IndexError"
    using inst2 by (simp add: ds scene2_def)
  then obtain ti where ti: "first_after (dists_time scene2) 0 = Inr ti"
    by (auto simp: first_after_def split: list.splits)
  with inst2 have "ti < 2" "0 < dists_time scene2 ! ti" "\<forall>j<ti. dists_time scene2 ! j \<le> 0"
    by (auto simp: ds scene2_def)
  then have "ti = 1" by (cases "ti = 0") (auto simp: scene2_def)
  with ti 1 3 show ?thesis by simp
qed

end
